theory Spec2Isabelle
  imports
    Complex_Main
    "HOL-Library.Sublist"
    "HOL-Library.Char_ord"
    "HOL-Library.List_Lexorder"
    "HOL-Library.Product_Lexorder"
    "HOL-Library.Multiset"
begin

section \<open>Python values used by anhalyze\_utils.py\<close>

text \<open>
  An embedding of \<open>anhalyze_utils.py\<close>: one definition for each function of the module
  that the properties below are about, with the names of the source. What a function
  reads from outside (host name, environment, directory listings, the contents of the
  netCDF files) is an argument of its model; what it raises is a value of the type
  \<open>error\<close>; file names are ASCII strings; floating-point numbers are NaN or a real.
\<close>

text \<open>
  The exceptions the module can raise. The specification names error kinds abstractly;
  the code raises these built-in exceptions for them:
  \<^item> \<open>ConfigurationError\<close> is the \<open>UnboundLocalError\<close> raised by \<open>get_paths\<close> at its
    \<open>return\<close> after the remediation message was printed;
  \<^item> \<open>InvalidRunIdentifier\<close> is \<open>AssertionError\<close> (format) or \<open>ValueError\<close> (user code);
  \<^item> \<open>EmptyRegionError\<close> and \<open>NoFileForMonth\<close> are \<open>IndexError\<close> (index into an empty
    sequence).
\<close>

datatype error =
    KeyError
  | IndexError
  | ValueError
  | AssertionError
  | UnboundLocalError
  | FileNotFoundError
  | TypeError
  | AttributeError

subsection \<open>Strings\<close>

text \<open>
  Strings are ASCII byte strings. \<open>str_in sub s\<close> is Python's \<open>sub in s\<close> on strings:
  \<open>sub\<close> occurs in \<open>s\<close> as a contiguous run of characters.
\<close>

fun str_in :: "string \<Rightarrow> string \<Rightarrow> bool" where
  "str_in sub [] = (sub = [])"
| "str_in sub (c # cs) = (prefix sub (c # cs) \<or> str_in sub cs)"

text \<open>\<open>s.split(sep)\<close> for a one-character separator: never an empty list.\<close>

fun str_split :: "char \<Rightarrow> string \<Rightarrow> string list" where
  "str_split sep [] = [[]]"
| "str_split sep (c # cs) =
     (if c = sep then [] # str_split sep cs
      else (case str_split sep cs of [] \<Rightarrow> [[c]] | p # ps \<Rightarrow> (c # p) # ps))"

text \<open>\<open>xs[i]\<close>: a negative index counts from the end; out of range raises IndexError.\<close>

definition py_index :: "'a list \<Rightarrow> int \<Rightarrow> error + 'a" where
  "py_index xs i =
     (if 0 \<le> i \<and> i < int (length xs) then Inr (xs ! nat i)
      else if i < 0 \<and> - int (length xs) \<le> i then Inr (xs ! nat (int (length xs) + i))
      else Inl IndexError)"

text \<open>\<open>s[a:b]\<close> for constant bounds \<open>0 \<le> a \<le> b\<close>: clipped to the string, never an error.\<close>

definition slice :: "nat \<Rightarrow> nat \<Rightarrow> 'a list \<Rightarrow> 'a list" where
  "slice a b s = take (b - a) (drop a s)"

definition upper_char :: "char \<Rightarrow> char" where
  "upper_char c =
     (case map_of (zip ''abcdefghijklmnopqrstuvwxyz'' ''ABCDEFGHIJKLMNOPQRSTUVWXYZ'') c of
        Some u \<Rightarrow> u
      | None \<Rightarrow> c)"

definition upper :: "string \<Rightarrow> string" where
  "upper s = map upper_char s"

subsection \<open>int(s) and str(n)\<close>

text \<open>
  \<open>int(s)\<close> on an ASCII string: surrounding white space (tab, line feed, vertical tab,
  form feed, carriage return, space) is stripped, one sign is allowed, then at least one
  decimal digit; anything else raises ValueError. (Underscores between digits, which
  Python also accepts, cannot occur here: every argument is a piece of a string that was
  split at \<open>_\<close>.)
\<close>

definition is_space :: "char \<Rightarrow> bool" where
  "is_space c = (c \<in> set [CHR 0x09, CHR 0x0A, CHR 0x0B, CHR 0x0C, CHR 0x0D, CHR 0x20])"

definition strip :: "string \<Rightarrow> string" where
  "strip s = rev (dropWhile is_space (rev (dropWhile is_space s)))"

definition digit_val :: "char \<Rightarrow> nat option" where
  "digit_val c = map_of (zip ''0123456789'' [0, 1, 2, 3, 4, 5, 6, 7, 8, 9]) c"

fun digits_val :: "nat \<Rightarrow> string \<Rightarrow> nat option" where
  "digits_val acc [] = Some acc"
| "digits_val acc (c # cs) =
     (case digit_val c of None \<Rightarrow> None | Some d \<Rightarrow> digits_val (10 * acc + d) cs)"

definition nat_of_digits :: "string \<Rightarrow> nat option" where
  "nat_of_digits s = (if s = [] then None else digits_val 0 s)"

definition py_int :: "string \<Rightarrow> error + int" where
  "py_int s =
     (case strip s of
        [] \<Rightarrow> Inl ValueError
      | c # r \<Rightarrow>
          if c = CHR ''-'' then
            (case nat_of_digits r of None \<Rightarrow> Inl ValueError | Some n \<Rightarrow> Inr (- int n))
          else if c = CHR ''+'' then
            (case nat_of_digits r of None \<Rightarrow> Inl ValueError | Some n \<Rightarrow> Inr (int n))
          else
            (case nat_of_digits (c # r) of None \<Rightarrow> Inl ValueError | Some n \<Rightarrow> Inr (int n)))"

definition digit_char :: "nat \<Rightarrow> char" where
  "digit_char d = ''0123456789'' ! d"

fun str_nat :: "nat \<Rightarrow> string" where
  "str_nat n = (if n < 10 then [digit_char n] else str_nat (n div 10) @ [digit_char (n mod 10)])"

declare str_nat.simps [simp del]

definition str_int :: "int \<Rightarrow> string" where
  "str_int i = (if i < 0 then CHR ''-'' # str_nat (nat (- i)) else str_nat (nat i))"

section \<open>get\_paths\<close>

text \<open>
  What \<open>get_paths\<close> reads from outside: the host name, the process environment, the
  directory listings (\<open>os.listdir\<close>) and the line \<open>input()\<close> returns.
\<close>

record world =
  hostname :: string
  environ :: "string \<rightharpoonup> string"
  listdir :: "string \<Rightarrow> error + string list"
  stdin_line :: string

definition paths_message :: string where
  "paths_message =
     ''Relevant paths not defined, '' @
     ''please add in your .bash_profile (or .bashrc, etc..) something like this: '' @
     [CHR 0x0A, CHR 0x0A] @
     ''#-------------------------------------------------------------'' @ [CHR 0x0A] @
     ''# ANHALIZE setup'' @ [CHR 0x0A] @
     ''#-------------------------------------------------------------'' @ [CHR 0x0A] @
     ''export MASK_PATH='' @ [CHR 0x27] @ ''/root_path/user/ANALYSES/MASKS/'' @
       [CHR 0x27, CHR 0x0A] @
     ''export DATA_PATH='' @ [CHR 0x27] @ ''/root_path/user/NEMO/ANHA4/ANHA4-EPM111-S/'' @
       [CHR 0x27, CHR 0x0A] @
     ''#-------------------------------------------------------------'' @ [CHR 0x0A]"

text \<open>\<open>not run_name\<close>: the name is None or the empty string.\<close>

definition run_name_given :: "string option \<Rightarrow> bool" where
  "run_name_given r = (case r of None \<Rightarrow> False | Some s \<Rightarrow> s \<noteq> [])"

text \<open>
  The test of line 37: \<open>'portal' not in socket.gethostname() or not run_name or
  environ_paths\<close>. When it holds the paths come from the environment; otherwise the
  deployment branch (the \<open>else\<close>) derives them from the run name.
\<close>

definition environment_mode :: "world \<Rightarrow> string option \<Rightarrow> bool \<Rightarrow> bool" where
  "environment_mode w r environ_paths =
     (\<not> str_in ''portal'' (hostname w) \<or> \<not> run_name_given r \<or> environ_paths)"

text \<open>
  The environment branch. A missing variable raises KeyError inside the \<open>try\<close>; the
  handler prints the message and falls through to \<open>return data_path, mask_path\<close>,
  where \<open>data_path\<close> was never assigned: UnboundLocalError. The first component of the
  result is what was printed.
\<close>

definition paths_from_environ :: "world \<Rightarrow> string list \<times> (error + string \<times> string)" where
  "paths_from_environ w =
     (case environ w ''MASK_PATH'' of
        None \<Rightarrow> ([paths_message], Inl UnboundLocalError)
      | Some mask_path \<Rightarrow>
          (case environ w ''DATA_PATH'' of
             None \<Rightarrow> ([paths_message], Inl UnboundLocalError)
           | Some data_path \<Rightarrow> ([], Inr (data_path, mask_path))))"

text \<open>\<open>run_name.split('-')[1][1:3].upper()\<close>\<close>

definition user_initials :: "string \<Rightarrow> error + string" where
  "user_initials r =
     (case py_index (str_split CHR ''-'' r) 1 of
        Inl e \<Rightarrow> Inl e
      | Inr part \<Rightarrow> Inr (upper (slice 1 3 part)))"

definition user_path :: "string \<Rightarrow> error + string" where
  "user_path initials =
     (if list_ex (\<lambda>x. str_in x initials) [''JM'', ''PM''] then Inr ''jmarson''
      else if initials = ''MC'' then Inr ''madhurima''
      else if initials = ''EE'' then Inr ''emilio''
      else Inl ValueError)"

definition paths_from_run_name :: "string \<Rightarrow> error + string \<times> string" where
  "paths_from_run_name r =
     (if \<not> str_in ''-'' r then Inl AssertionError
      else if \<not> str_in ''ANHA'' r then Inl AssertionError
      else if length r \<noteq> length ''ANHA4-WJM000'' then Inl AssertionError
      else
        (case py_index (str_split CHR ''-'' r) 0 of
           Inl e \<Rightarrow> Inl e
         | Inr model_path \<Rightarrow>
             (case user_initials r of
                Inl e \<Rightarrow> Inl e
              | Inr initials \<Rightarrow>
                  (case user_path initials of
                     Inl e \<Rightarrow> Inl e
                   | Inr up \<Rightarrow>
                       Inr (''/mnt/storage0/'' @ up @ ''/NEMO/'' @ model_path @ ''/'' @ r @ ''-S/'',
                            ''/mnt/storage0/'' @ up @ ''/ANALYSES/MASKS/'')))))"

definition get_paths ::
  "world \<Rightarrow> string option \<Rightarrow> bool \<Rightarrow> string list \<times> (error + string \<times> string)" where
  "get_paths w r environ_paths =
     (if environment_mode w r environ_paths then paths_from_environ w
      else
        (case r of
           None \<Rightarrow> paths_from_environ w
         | Some name \<Rightarrow> ([], paths_from_run_name name)))"

section \<open>get\_date\<close>

datatype date_info = YMD int int int | Num int | Token string

definition get_date :: "string \<Rightarrow> string \<Rightarrow> error + date_info" where
  "get_date filename how =
     (case py_index (str_split CHR ''_'' filename) (- 2) of
        Inl e \<Rightarrow> Inl e
      | Inr date \<Rightarrow>
          if how = ''ymd'' then
            (case py_int (slice 1 5 date) of
               Inl e \<Rightarrow> Inl e
             | Inr y \<Rightarrow>
                 (case py_int (slice 6 8 date) of
                    Inl e \<Rightarrow> Inl e
                  | Inr m \<Rightarrow>
                      (case py_int (slice 9 11 date) of
                         Inl e \<Rightarrow> Inl e
                       | Inr d \<Rightarrow> Inr (YMD y m d))))
          else if how = ''y'' then
            (case py_int (slice 1 5 date) of Inl e \<Rightarrow> Inl e | Inr y \<Rightarrow> Inr (Num y))
          else if how = ''m'' then
            (case py_int (slice 6 8 date) of Inl e \<Rightarrow> Inl e | Inr m \<Rightarrow> Inr (Num m))
          else Inr (Token date))"

section \<open>The class Anhalyze and get\_file\_list\<close>

text \<open>
  The attributes of an \<open>Anhalyze\<close> object that \<open>get_file_list\<close> reads. An element of
  a month list is whatever \<open>'y{}m{}'.format(year, month)\<close> can print: the strings a caller
  passes, or the integers \<open>get_date(filename, how='m')\<close> returns.
\<close>

datatype month = MonthStr string | MonthInt int

record anhalyze =
  run_name :: "string option"
  grid :: string
  years :: "string list"

text \<open>\<open>'y{}m{}'.format(year, month)\<close>\<close>

fun format_month :: "month \<Rightarrow> string" where
  "format_month (MonthStr s) = s"
| "format_month (MonthInt i) = str_int i"

definition file_name_stump :: "string \<Rightarrow> month \<Rightarrow> string" where
  "file_name_stump year m = ''y'' @ year @ ''m'' @ format_month m"

text \<open>Line 211: the files of one year, \<open>sorted([f for f in file_list if ...])\<close>.\<close>

definition year_grid_match :: "string \<Rightarrow> string \<Rightarrow> string \<Rightarrow> bool" where
  "year_grid_match year g f = (str_in (''_y'' @ year) f \<and> str_in (''_grid'' @ g) f)"

definition year_files :: "string list \<Rightarrow> string \<Rightarrow> string \<Rightarrow> string list" where
  "year_files file_list g year = sort (filter (year_grid_match year g) file_list)"

definition select_years :: "string list \<Rightarrow> string \<Rightarrow> string list \<Rightarrow> string list" where
  "select_years file_list g ys = concat (map (year_files file_list g) ys)"

text \<open>Line 216: \<open>[get_date(filename, how='m') for filename in selected_file_list]\<close>.\<close>

fun months_found :: "string list \<Rightarrow> error + month list" where
  "months_found [] = Inr []"
| "months_found (f # fs) =
     (case get_date f ''m'' of
        Inl e \<Rightarrow> Inl e
      | Inr (Num m) \<Rightarrow>
          (case months_found fs of Inl e \<Rightarrow> Inl e | Inr ms \<Rightarrow> Inr (MonthInt m # ms))
      | Inr _ \<Rightarrow> Inl ValueError)"

text \<open>
  Lines 218 to 222: the first file of each year and month;
  \<open>[f for f in selected_file_list if file_name_stump in f][0]\<close> raises IndexError when
  no file matches. The last argument is \<open>monthly_file_list\<close> so far.
\<close>

fun first_of_months :: "string list \<Rightarrow> string \<Rightarrow> month list \<Rightarrow> string list \<Rightarrow> error + string list" where
  "first_of_months sel year [] acc = Inr acc"
| "first_of_months sel year (m # ms) acc =
     (case filter (str_in (file_name_stump year m)) sel of
        [] \<Rightarrow> Inl IndexError
      | file_month_name # _ \<Rightarrow> first_of_months sel year ms (acc @ [file_month_name]))"

fun first_of_years :: "string list \<Rightarrow> string list \<Rightarrow> month list \<Rightarrow> string list \<Rightarrow> error + string list" where
  "first_of_years sel [] ms acc = Inr acc"
| "first_of_years sel (year # ys) ms acc =
     (case first_of_months sel year ms acc of
        Inl e \<Rightarrow> Inl e
      | Inr acc' \<Rightarrow> first_of_years sel ys ms acc')"

text \<open>Lines 226 to 230: every file of each year and month.\<close>

definition all_of_months :: "string list \<Rightarrow> string list \<Rightarrow> month list \<Rightarrow> string list" where
  "all_of_months sel ys ms =
     concat (map (\<lambda>year. concat (map (\<lambda>m. filter (str_in (file_name_stump year m)) sel) ms)) ys)"

definition monthly_selection ::
  "string list \<Rightarrow> string list \<Rightarrow> month list \<Rightarrow> bool \<Rightarrow> error + string list" where
  "monthly_selection sel ys month_list one_per_month =
     (if one_per_month then
        (case (if month_list = [] then months_found sel else Inr month_list) of
           Inl e \<Rightarrow> Inl e
         | Inr ms \<Rightarrow> first_of_years sel ys ms [])
      else if month_list \<noteq> [] then Inr (all_of_months sel ys month_list)
      else Inr [])"

text \<open>
  \<open>get_file_list(self, month_list, one_per_month, monthly_mean)\<close>. A \<open>month_list\<close> of
  None is the empty list. What \<open>get_paths\<close> printed is not part of the result.
\<close>

definition get_file_list ::
  "world \<Rightarrow> anhalyze \<Rightarrow> month list option \<Rightarrow> bool \<Rightarrow> bool \<Rightarrow> error + string list" where
  "get_file_list w self month_list one_per_month monthly_mean =
     (case snd (get_paths w (run_name self) False) of
        Inl e \<Rightarrow> Inl e
      | Inr (data_path0, mask_path) \<Rightarrow>
          (let data_path = (if monthly_mean then stdin_line w else data_path0) in
           case listdir w data_path of
             Inl e \<Rightarrow> Inl e
           | Inr file_list \<Rightarrow>
               (let selected_file_list = select_years file_list (grid self) (years self) in
                case monthly_selection selected_file_list (years self)
                       (case month_list of None \<Rightarrow> [] | Some ms \<Rightarrow> ms) one_per_month of
                  Inl e \<Rightarrow> Inl e
                | Inr monthly_file_list \<Rightarrow>
                    Inr (map (\<lambda>filename. data_path @ filename)
                          (if monthly_file_list \<noteq> [] then monthly_file_list
                           else selected_file_list)))))"

section \<open>get\_row\_col\_range\<close>

text \<open>
  A data file as far as \<open>get_row_col_range\<close> reads it: the shape of the horizontal grid
  and the latitude and longitude of every cell (row, column), for the T grid and for the
  other grids. Coordinates are real numbers, and the sums over a row or a column below
  are exact: the rounding of a float64 sum is not modelled.
\<close>

record dataset =
  n_rows :: nat
  n_cols :: nat
  nav_lat_grid_T :: "nat \<Rightarrow> nat \<Rightarrow> real"
  nav_lon_grid_T :: "nat \<Rightarrow> nat \<Rightarrow> real"
  nav_lat :: "nat \<Rightarrow> nat \<Rightarrow> real"
  nav_lon :: "nat \<Rightarrow> nat \<Rightarrow> real"

definition grid_lat :: "dataset \<Rightarrow> string \<Rightarrow> nat \<Rightarrow> nat \<Rightarrow> real" where
  "grid_lat data g = (if g = ''gridT'' then nav_lat_grid_T data else nav_lat data)"

definition grid_lon :: "dataset \<Rightarrow> string \<Rightarrow> nat \<Rightarrow> nat \<Rightarrow> real" where
  "grid_lon data g = (if g = ''gridT'' then nav_lon_grid_T data else nav_lon data)"

text \<open>Lines 322 and 323: \<open>(lat.data > lat_range[0]) & (lat.data < lat_range[1])\<close>.\<close>

definition in_range :: "real \<times> real \<Rightarrow> real \<Rightarrow> bool" where
  "in_range r x = (x > fst r \<and> x < snd r)"

definition cell_selected ::
  "dataset \<Rightarrow> string \<Rightarrow> real \<times> real \<Rightarrow> real \<times> real \<Rightarrow> nat \<Rightarrow> nat \<Rightarrow> bool" where
  "cell_selected data g lat_range lon_range i j =
     (in_range lat_range (grid_lat data g i j) \<and> in_range lon_range (grid_lon data g i j))"

text \<open>
  Lines 326 and 327: \<open>mask = lat; mask[~(lat_mask & lon_mask)] = 0\<close>. The mask is the
  latitude array with the cells that are not selected set to 0.
\<close>

definition mask_cell ::
  "dataset \<Rightarrow> string \<Rightarrow> real \<times> real \<Rightarrow> real \<times> real \<Rightarrow> nat \<Rightarrow> nat \<Rightarrow> real" where
  "mask_cell data g lat_range lon_range i j =
     (if cell_selected data g lat_range lon_range i j then grid_lat data g i j else 0)"

text \<open>Lines 330 and 331: \<open>np.where(mask.data.sum(axis=1) > 0)[0]\<close> and the same for axis 0.\<close>

definition row_ranges :: "dataset \<Rightarrow> string \<Rightarrow> real \<times> real \<Rightarrow> real \<times> real \<Rightarrow> nat list" where
  "row_ranges data g lat_range lon_range =
     filter (\<lambda>i. sum_list (map (\<lambda>j. mask_cell data g lat_range lon_range i j) [0..<n_cols data]) > 0)
       [0..<n_rows data]"

definition col_ranges :: "dataset \<Rightarrow> string \<Rightarrow> real \<times> real \<Rightarrow> real \<times> real \<Rightarrow> nat list" where
  "col_ranges data g lat_range lon_range =
     filter (\<lambda>j. sum_list (map (\<lambda>i. mask_cell data g lat_range lon_range i j) [0..<n_rows data]) > 0)
       [0..<n_cols data]"

text \<open>Lines 334 and 335: \<open>(xs[0], xs[-1])\<close>, IndexError on an empty array.\<close>

definition first_last :: "nat list \<Rightarrow> error + nat \<times> nat" where
  "first_last xs =
     (case py_index xs 0 of
        Inl e \<Rightarrow> Inl e
      | Inr a \<Rightarrow> (case py_index xs (- 1) of Inl e \<Rightarrow> Inl e | Inr b \<Rightarrow> Inr (a, b)))"

definition get_row_col_range ::
  "dataset \<Rightarrow> real \<times> real \<Rightarrow> real \<times> real \<Rightarrow> string \<Rightarrow> error + (nat \<times> nat) \<times> (nat \<times> nat)" where
  "get_row_col_range data lat_range lon_range g =
     (case first_last (row_ranges data g lat_range lon_range) of
        Inl e \<Rightarrow> Inl e
      | Inr row_range \<Rightarrow>
          (case first_last (col_ranges data g lat_range lon_range) of
             Inl e \<Rightarrow> Inl e
           | Inr col_range \<Rightarrow> Inr (row_range, col_range)))"

text \<open>
  The rows and the columns of the grid that contain a cell satisfying both predicates:
  what the ranges are meant to span.
\<close>

definition selected_rows :: "dataset \<Rightarrow> string \<Rightarrow> real \<times> real \<Rightarrow> real \<times> real \<Rightarrow> nat set" where
  "selected_rows data g lat_range lon_range =
     {i. i < n_rows data \<and> (\<exists>j < n_cols data. cell_selected data g lat_range lon_range i j)}"

definition selected_cols :: "dataset \<Rightarrow> string \<Rightarrow> real \<times> real \<Rightarrow> real \<times> real \<Rightarrow> nat set" where
  "selected_cols data g lat_range lon_range =
     {j. j < n_cols data \<and> (\<exists>i < n_rows data. cell_selected data g lat_range lon_range i j)}"

section \<open>calc\_stats\_var\_data\<close>

text \<open>
  A floating-point number is not-a-number or a real number; rounding and the infinities
  are not modelled. A field is the 2-D array \<open>get_var_data\<close> returns, as its rows.
\<close>

datatype flt = NaN | Val real

type_synonym field = "flt list list"

fun finite_values :: "flt list \<Rightarrow> real list" where
  "finite_values [] = []"
| "finite_values (NaN # xs) = finite_values xs"
| "finite_values (Val x # xs) = x # finite_values xs"

definition mean :: "real list \<Rightarrow> real" where
  "mean v = sum_list v / real (length v)"

text \<open>
  numpy's reductions over all the cells of an array. \<open>np.nanmean\<close> and \<open>np.nanstd\<close>
  (the square root of the mean squared deviation, \<open>ddof=0\<close>) leave the NaN cells out and
  return NaN, with a warning, when no cell is left. \<open>np.nanmin\<close> and \<open>np.nanmax\<close> do
  the same but raise ValueError on an array of no cells at all.
\<close>

definition nanmean :: "field \<Rightarrow> flt" where
  "nanmean a = (let v = finite_values (concat a) in if v = [] then NaN else Val (mean v))"

definition nanstd :: "field \<Rightarrow> flt" where
  "nanstd a =
     (let v = finite_values (concat a)
      in if v = [] then NaN else Val (sqrt (mean (map (\<lambda>x. (x - mean v)\<^sup>2) v))))"

definition nanmin :: "field \<Rightarrow> error + flt" where
  "nanmin a =
     (if concat a = [] then Inl ValueError
      else (let v = finite_values (concat a)
            in if v = [] then Inr NaN else Inr (Val (fold min (tl v) (hd v)))))"

definition nanmax :: "field \<Rightarrow> error + flt" where
  "nanmax a =
     (if concat a = [] then Inl ValueError
      else (let v = finite_values (concat a)
            in if v = [] then Inr NaN else Inr (Val (fold max (tl v) (hd v)))))"

datatype stats = MeanStd flt flt | MeanStdMinMax flt flt flt flt

text \<open>
  \<open>calc_stats_var_data(data, lat_range, lon_range, depth, no_min_max, var)\<close>. Reading the
  file is outside the model: the first argument is what the call
  \<open>get_var_data(data, lat_range, lon_range, depth=depth, var=var)\<close> of line 429 returned,
  or the exception it raised.
\<close>

definition calc_stats_var_data :: "error + field \<Rightarrow> bool \<Rightarrow> error + stats" where
  "calc_stats_var_data got no_min_max =
     (case got of
        Inl e \<Rightarrow> Inl e
      | Inr var_data \<Rightarrow>
          (let var_mean = nanmean var_data; var_std = nanstd var_data
           in if no_min_max then Inr (MeanStd var_mean var_std)
              else
                (case nanmin var_data of
                   Inl e \<Rightarrow> Inl e
                 | Inr var_min \<Rightarrow>
                     (case nanmax var_data of
                        Inl e \<Rightarrow> Inl e
                      | Inr var_max \<Rightarrow> Inr (MeanStdMinMax var_mean var_std var_min var_max)))))"

section \<open>get\_timeseries\<close>

text \<open>
  \<open>datetime.date(y, m, d)\<close>: a date is a year from 1 to 9999, a month and a day of that
  month; anything else raises ValueError.
\<close>

type_synonym date = "int \<times> int \<times> int"

definition is_leap :: "int \<Rightarrow> bool" where
  "is_leap y = (y mod 4 = 0 \<and> (y mod 400 = 0 \<or> y mod 100 \<noteq> 0))"

definition days_in_month :: "int \<Rightarrow> int \<Rightarrow> int" where
  "days_in_month y m =
     (if m = 2 then (if is_leap y then 29 else 28)
      else if m \<in> set [4, 6, 9, 11] then 30
      else 31)"

definition py_date :: "int \<Rightarrow> int \<Rightarrow> int \<Rightarrow> error + date" where
  "py_date y m d =
     (if 1 \<le> y \<and> y \<le> 9999 \<and> 1 \<le> m \<and> m \<le> 12 \<and> 1 \<le> d \<and> d \<le> days_in_month y m
      then Inr (y, m, d)
      else Inl ValueError)"

text \<open>
  The Python objects the lists of \<open>get_timeseries\<close> hold, and the heap of list objects:
  an address is a position in the heap. \<open>[]\<close> allocates a new list; \<open>xs.append(v)\<close>
  changes the list at the address \<open>xs\<close> is bound to, for every name bound to it.
\<close>

datatype pyval = PFloat flt | PDate date | PNone

type_synonym heap = "pyval list list"

definition new_list :: "heap \<Rightarrow> nat \<times> heap" where
  "new_list h = (length h, h @ [[]])"

definition list_append :: "nat \<Rightarrow> pyval \<Rightarrow> heap \<Rightarrow> heap" where
  "list_append a v h = h[a := h ! a @ [v]]"

text \<open>The local names of \<open>get_timeseries\<close> that are bound to lists, with their addresses.\<close>

record ts_locals =
  dates :: nat
  var_means :: nat
  var_stds :: nat
  var_mins :: nat
  var_maxs :: nat

text \<open>
  Lines 449 to 451: \<open>dates = []\<close>, \<open>var_means = var_stds = []\<close>,
  \<open>var_mins = var_maxs = []\<close>. A chained assignment evaluates \<open>[]\<close> once and binds both
  names to the one list.
\<close>

definition ts_setup :: "ts_locals \<times> heap" where
  "ts_setup =
     (let (a_dates, h1) = new_list [];
          (a_means, h2) = new_list h1;
          (a_mins, h3) = new_list h2
      in (\<lparr>dates = a_dates, var_means = a_means, var_stds = a_means,
            var_mins = a_mins, var_maxs = a_mins\<rparr>, h3))"

text \<open>
  A column of a pandas table: floats, integers or Python objects (dates). A table has
  an index \<open>0, ..., index_length - 1\<close> and named columns.
\<close>

datatype column = FloatCol "flt list" | IntCol "int list" | ObjectCol "pyval list"

fun column_length :: "column \<Rightarrow> nat" where
  "column_length (FloatCol xs) = length xs"
| "column_length (IntCol xs) = length xs"
| "column_length (ObjectCol xs) = length xs"

record frame =
  index_length :: nat
  columns :: "(string \<times> column) list"

fun is_float :: "pyval \<Rightarrow> bool" where
  "is_float (PFloat x) = True"
| "is_float (PDate d) = False"
| "is_float PNone = False"

fun float_of :: "pyval \<Rightarrow> flt" where
  "float_of (PFloat x) = x"
| "float_of (PDate d) = NaN"
| "float_of PNone = NaN"

text \<open>
  The column pandas makes of a Python list: float64 for a list of floats and for the
  empty list, object otherwise.
\<close>

definition column_of_list :: "pyval list \<Rightarrow> column" where
  "column_of_list xs =
     (if list_all is_float xs then FloatCol (map float_of xs) else ObjectCol xs)"

text \<open>
  \<open>pd.DataFrame({name: list, ...})\<close>: ValueError (\<open>All arrays must be of the same
  length\<close>) unless the lists have one length.
\<close>

definition data_frame :: "(string \<times> pyval list) list \<Rightarrow> error + frame" where
  "data_frame d =
     (case d of
        [] \<Rightarrow> Inr \<lparr>index_length = 0, columns = []\<rparr>
      | (name, xs) # rest \<Rightarrow>
          if list_all (\<lambda>(n, ys). length ys = length xs) rest
          then Inr \<lparr>index_length = length xs,
                    columns = map (\<lambda>(n, ys). (n, column_of_list ys)) d\<rparr>
          else Inl ValueError)"

text \<open>
  The loop of lines 455 to 477 over the file names. \<open>read_var filename\<close> is what
  \<open>get_var_data\<close> yields for the data set \<open>nc.Dataset(filename)\<close> with the arguments of
  the call, or the exception raised on the way.
\<close>

fun ts_loop ::
  "(string \<Rightarrow> error + field) \<Rightarrow> bool \<Rightarrow> ts_locals \<Rightarrow> string list \<Rightarrow> heap \<Rightarrow> error + heap" where
  "ts_loop read_var no_min_max l [] h = Inr h"
| "ts_loop read_var no_min_max l (filename # rest) h =
     (case calc_stats_var_data (read_var filename) no_min_max of
        Inl e \<Rightarrow> Inl e
      | Inr st \<Rightarrow>
          (case get_date filename ''ymd'' of
             Inl e \<Rightarrow> Inl e
           | Inr (YMD y m d) \<Rightarrow>
               (case py_date y m d of
                  Inl e \<Rightarrow> Inl e
                | Inr date \<Rightarrow>
                    (case st of
                       MeanStd var_mean var_std \<Rightarrow>
                         ts_loop read_var no_min_max l rest
                           (list_append (dates l) (PDate date)
                             (list_append (var_stds l) (PFloat var_std)
                               (list_append (var_means l) (PFloat var_mean) h)))
                     | MeanStdMinMax var_mean var_std var_min var_max \<Rightarrow>
                         ts_loop read_var no_min_max l rest
                           (list_append (var_maxs l) (PFloat var_max)
                             (list_append (var_mins l) (PFloat var_min)
                               (list_append (dates l) (PDate date)
                                 (list_append (var_stds l) (PFloat var_std)
                                   (list_append (var_means l) (PFloat var_mean) h)))))))
           | Inr _ \<Rightarrow> Inl ValueError))"

text \<open>
  \<open>get_timeseries(file_list, lat_range, lon_range, depth, no_min_max, var)\<close>: the
  setup, the loop, and the table made of the lists the names are bound to at the end.
\<close>

definition get_timeseries ::
  "(string \<Rightarrow> error + field) \<Rightarrow> string list \<Rightarrow> bool \<Rightarrow> error + frame" where
  "get_timeseries read_var file_list no_min_max =
     (let (l, h0) = ts_setup in
      case ts_loop read_var no_min_max l file_list h0 of
        Inl e \<Rightarrow> Inl e
      | Inr h \<Rightarrow>
          if no_min_max then
            data_frame [(''date'', h ! dates l), (''var_mean'', h ! var_means l),
                        (''var_std'', h ! var_stds l)]
          else
            data_frame [(''date'', h ! dates l), (''var_mean'', h ! var_means l),
                        (''var_std'', h ! var_stds l), (''var_min'', h ! var_mins l),
                        (''var_max'', h ! var_maxs l)])"

section \<open>calc\_timeseries\<close>

text \<open>Sequencing of calls that may raise: the first exception ends the computation.\<close>

definition then_do :: "error + 'a \<Rightarrow> ('a \<Rightarrow> error + 'b) \<Rightarrow> error + 'b" where
  "then_do m f = (case m of Inl e \<Rightarrow> Inl e | Inr x \<Rightarrow> f x)"

text \<open>Arithmetic and comparison of floats: NaN propagates and compares false.\<close>

fun fl_add :: "flt \<Rightarrow> flt \<Rightarrow> flt" where
  "fl_add (Val a) (Val b) = Val (a + b)"
| "fl_add _ _ = NaN"

fun fl_sub :: "flt \<Rightarrow> flt \<Rightarrow> flt" where
  "fl_sub (Val a) (Val b) = Val (a - b)"
| "fl_sub _ _ = NaN"

fun fl_mul :: "flt \<Rightarrow> flt \<Rightarrow> flt" where
  "fl_mul (Val a) (Val b) = Val (a * b)"
| "fl_mul _ _ = NaN"

fun fl_le :: "flt \<Rightarrow> flt \<Rightarrow> bool" where
  "fl_le (Val a) (Val b) = (a \<le> b)"
| "fl_le _ _ = False"

text \<open>
  \<open>frame[name]\<close> raises KeyError for a missing column. \<open>frame[name] = values\<close> replaces
  the column of that name or adds it as the last one.
\<close>

definition get_column :: "frame \<Rightarrow> string \<Rightarrow> error + column" where
  "get_column f name = (case map_of (columns f) name of None \<Rightarrow> Inl KeyError | Some c \<Rightarrow> Inr c)"

fun put_column :: "string \<Rightarrow> column \<Rightarrow> (string \<times> column) list \<Rightarrow> (string \<times> column) list" where
  "put_column name c [] = [(name, c)]"
| "put_column name c ((n, c') # cs) =
     (if n = name then (name, c) # cs else (n, c') # put_column name c cs)"

text \<open>
  A column read as numbers (int64 is promoted to float; arithmetic on a column of
  objects raises TypeError) and as dates (\<open>pd.to_datetime\<close> of a column that does not
  hold dates raises ValueError).
\<close>

fun as_floats :: "column \<Rightarrow> error + flt list" where
  "as_floats (FloatCol xs) = Inr xs"
| "as_floats (IntCol xs) = Inr (map (\<lambda>i. Val (real_of_int i)) xs)"
| "as_floats (ObjectCol xs) = Inl TypeError"

fun is_date :: "pyval \<Rightarrow> bool" where
  "is_date (PDate d) = True"
| "is_date _ = False"

fun date_of :: "pyval \<Rightarrow> date" where
  "date_of (PDate d) = d"
| "date_of _ = (1, 1, 1)"

fun as_dates :: "column \<Rightarrow> error + date list" where
  "as_dates (ObjectCol xs) = (if list_all is_date xs then Inr (map date_of xs) else Inl ValueError)"
| "as_dates (FloatCol xs) = (if xs = [] then Inr [] else Inl ValueError)"
| "as_dates (IntCol xs) = (if xs = [] then Inr [] else Inl ValueError)"

text \<open>
  \<open>timeseries.groupby('wrap_day')[['var_mean', 'var_std']]\<close>: KeyError for a missing
  column; nothing else is computed before an aggregation is asked for.
\<close>

definition grouped :: "frame \<Rightarrow> error + column \<times> column \<times> column" where
  "grouped timeseries =
     then_do (get_column timeseries ''wrap_day'') (\<lambda>wc.
     then_do (get_column timeseries ''var_mean'') (\<lambda>mc.
     then_do (get_column timeseries ''var_std'') (\<lambda>sc.
       Inr (wc, mc, sc))))"

text \<open>
  The groups are the distinct keys in ascending order; a row whose key is missing (NaN or
  None) is in no group; a group holds the values of the rows with its key. A key is
  \<open>Some k\<close>, a missing key is None.
\<close>

definition group_keys :: "'k::linorder option list \<Rightarrow> 'k list" where
  "group_keys ks = sort (remdups (map the (filter (\<lambda>k. k \<noteq> None) ks)))"

definition group_values :: "'k option list \<Rightarrow> flt list \<Rightarrow> 'k \<Rightarrow> flt list" where
  "group_values ks vs k = map snd (filter (\<lambda>p. fst p = Some k) (zip ks vs))"

text \<open>
  The aggregations of a group, NaN left out (NaN for a group with no other value):
  the mean, the quantile \<open>p / d\<close> by linear interpolation between the two nearest
  ranks, the median (the quantile 1 / 2) and the maximum.
\<close>

definition agg_mean :: "flt list \<Rightarrow> flt" where
  "agg_mean xs = (let v = finite_values xs in if v = [] then NaN else Val (mean v))"

definition agg_quantile :: "nat \<Rightarrow> nat \<Rightarrow> flt list \<Rightarrow> flt" where
  "agg_quantile p d xs =
     (let v = sort (finite_values xs)
      in if v = [] then NaN
         else (let pos = (length v - 1) * p; lo = pos div d; r = pos mod d
               in if r = 0 then Val (v ! lo)
                  else Val (v ! lo + (v ! (lo + 1) - v ! lo) * (real r / real d))))"

definition agg_max :: "flt list \<Rightarrow> flt" where
  "agg_max xs = (let v = finite_values xs in if v = [] then NaN else Val (fold max (tl v) (hd v)))"

text \<open>
  \<open>grouped_timeseries.mean().reset_index()\<close> and the like: one row for each group, with
  its key and the aggregated \<open>var_mean\<close> and \<open>var_std\<close>, given as floats.
\<close>

definition group_frame :: "column \<Rightarrow> flt list \<Rightarrow> flt list \<Rightarrow> frame" where
  "group_frame kc ms ss =
     \<lparr>index_length = column_length kc,
      columns = [(''wrap_day'', kc), (''var_mean'', FloatCol ms), (''var_std'', FloatCol ss)]\<rparr>"

definition aggregate_by ::
  "(flt list \<Rightarrow> flt) \<Rightarrow> 'k::linorder option list \<Rightarrow> ('k list \<Rightarrow> column) \<Rightarrow>
     flt list \<Rightarrow> flt list \<Rightarrow> frame" where
  "aggregate_by agg ks key_column ms ss =
     group_frame (key_column (group_keys ks))
       (map (\<lambda>k. agg (group_values ks ms k)) (group_keys ks))
       (map (\<lambda>k. agg (group_values ks ss k)) (group_keys ks))"

text \<open>
  The keys of a column: integers, floats (NaN is missing), or objects that are all dates
  or all floats (None is missing). Objects of both kinds cannot be sorted: TypeError.
\<close>

fun float_key :: "flt \<Rightarrow> real option" where
  "float_key NaN = None"
| "float_key (Val x) = Some x"

fun date_key :: "pyval \<Rightarrow> date option" where
  "date_key (PDate d) = Some d"
| "date_key _ = None"

fun object_float_key :: "pyval \<Rightarrow> real option" where
  "object_float_key (PFloat x) = float_key x"
| "object_float_key _ = None"

definition aggregate :: "(flt list \<Rightarrow> flt) \<Rightarrow> column \<times> column \<times> column \<Rightarrow> error + frame" where
  "aggregate agg g =
     (case g of (wc, mc, sc) \<Rightarrow>
        then_do (as_floats mc) (\<lambda>ms.
        then_do (as_floats sc) (\<lambda>ss.
          case wc of
            IntCol ks \<Rightarrow> Inr (aggregate_by agg (map Some ks) IntCol ms ss)
          | FloatCol ks \<Rightarrow>
              Inr (aggregate_by agg (map float_key ks) (\<lambda>keys. FloatCol (map Val keys)) ms ss)
          | ObjectCol ks \<Rightarrow>
              if list_all is_date (filter (\<lambda>v. v \<noteq> PNone) ks) then
                Inr (aggregate_by agg (map date_key ks)
                       (\<lambda>keys. ObjectCol (map PDate keys)) ms ss)
              else if list_all is_float (filter (\<lambda>v. v \<noteq> PNone) ks) then
                Inr (aggregate_by agg (map object_float_key ks)
                       (\<lambda>keys. ObjectCol (map (\<lambda>x. PFloat (Val x)) keys)) ms ss)
              else Inl TypeError)))"

text \<open>What \<open>calc_timeseries\<close> returns: a table, an array, a column (Series) or None.\<close>

datatype result = ResFrame frame | ResArray column | ResSeries "flt list" | ResNone

text \<open>\<open>list * n\<close>: TypeError for None, the empty list for \<open>n \<le> 0\<close>.\<close>

fun repeat_column :: "nat \<Rightarrow> column \<Rightarrow> column" where
  "repeat_column n (FloatCol xs) = FloatCol (concat (replicate n xs))"
| "repeat_column n (IntCol xs) = IntCol (concat (replicate n xs))"
| "repeat_column n (ObjectCol xs) = ObjectCol (concat (replicate n xs))"

text \<open>Lines 529 to 538 and 542 to 551: the threshold of level \<open>k\<close>, row by row.\<close>

definition add_level :: "real \<Rightarrow> flt list \<Rightarrow> flt list \<Rightarrow> flt list" where
  "add_level k means quantiles =
     map (\<lambda>(m, q). fl_add m (fl_mul (Val k) (fl_sub q m))) (zip means quantiles)"

definition remove_level :: "real \<Rightarrow> flt list \<Rightarrow> flt list \<Rightarrow> flt list" where
  "remove_level k means quantiles =
     map (\<lambda>(m, q). fl_sub m (fl_mul (Val k) (fl_sub m q))) (zip means quantiles)"

definition mean_and_quantile :: "frame \<Rightarrow> error + flt list \<times> flt list" where
  "mean_and_quantile timeseries =
     then_do (get_column timeseries ''var_mean_quantile'') (\<lambda>qc.
     then_do (get_column timeseries ''var_mean_mean'') (\<lambda>mc.
     then_do (as_floats qc) (\<lambda>qs.
     then_do (as_floats mc) (\<lambda>ms. Inr (ms, qs)))))"

definition calc_timeseries :: "frame \<Rightarrow> string \<Rightarrow> int option \<Rightarrow> error + result" where
  "calc_timeseries timeseries action n_year =
     (if str_in ''g_'' action then
        then_do (grouped timeseries) (\<lambda>g.
          if str_in ''mean'' action then
            then_do (aggregate agg_mean g) (\<lambda>f. Inr (ResFrame f))
          else if str_in ''quantile90'' action then
            then_do (aggregate (agg_quantile 9 10) g) (\<lambda>f. Inr (ResFrame f))
          else if str_in ''quantile10'' action then
            then_do (aggregate (agg_quantile 1 10) g) (\<lambda>f. Inr (ResFrame f))
          else if str_in ''median'' action then
            then_do (aggregate (agg_quantile 1 2) g) (\<lambda>f. Inr (ResFrame f))
          else if str_in ''max'' action then
            then_do (aggregate agg_max g) (\<lambda>f. Inr (ResFrame f))
          else Inr ResNone)
      else if str_in ''add_'' action then
        (if str_in ''long'' action then
           then_do (get_column timeseries ''var_mean'') (\<lambda>c.
             case n_year of
               None \<Rightarrow> Inl TypeError
             | Some n \<Rightarrow> Inr (ResArray (repeat_column (nat n) c)))
         else
           then_do (mean_and_quantile timeseries) (\<lambda>(ms, qs).
             if str_in ''2T'' action then Inr (ResSeries (add_level 2 ms qs))
             else if str_in ''3T'' action then Inr (ResSeries (add_level 3 ms qs))
             else if str_in ''4T'' action then Inr (ResSeries (add_level 4 ms qs))
             else Inr ResNone))
      else if str_in ''remove_'' action then
        then_do (mean_and_quantile timeseries) (\<lambda>(ms, qs).
          if str_in ''2T'' action then Inr (ResSeries (remove_level 2 ms qs))
          else if str_in ''3T'' action then Inr (ResSeries (remove_level 3 ms qs))
          else if str_in ''4T'' action then Inr (ResSeries (remove_level 4 ms qs))
          else Inr ResNone)
      else Inr ResNone)"

section \<open>anhalize\_timeseries\<close>

definition actions :: "bool \<Rightarrow> string list" where
  "actions mhw =
     (if mhw then [''g_quantile90'', ''add_2T'', ''add_3T'', ''add_4T'']
      else [''g_quantile10'', ''remove_2T'', ''remove_3T'', ''remove_4T''])"

text \<open>\<open>n_year = year_max - year_min + 1\<close> with the years 2009 and 1958.\<close>

definition n_year_const :: int where
  "n_year_const = 2009 - 1958 + 1"

definition drop_column :: "string \<Rightarrow> (string \<times> column) list \<Rightarrow> (string \<times> column) list" where
  "drop_column name cs = filter (\<lambda>(n, c). n \<noteq> name) cs"

definition rename_column :: "string \<Rightarrow> string \<Rightarrow> (string \<times> column) list \<Rightarrow> (string \<times> column) list" where
  "rename_column old new cs = map (\<lambda>(n, c). (if n = old then new else n, c)) cs"

text \<open>Line 596: \<open>datetime.date(year_standard, row.month, row.day)\<close> for every row.\<close>

fun wrap_days :: "date list \<Rightarrow> error + date list" where
  "wrap_days [] = Inr []"
| "wrap_days ((y, m, d) # ds) =
     then_do (py_date 2000 m d) (\<lambda>w. then_do (wrap_days ds) (\<lambda>ws. Inr (w # ws)))"

text \<open>
  Lines 575 to 596: the calendar columns. The dates are taken to lie in the range a
  pandas timestamp can hold, so that \<open>pd.to_datetime\<close> and \<open>.dt.date\<close> give back the
  dates they were given. On a table of no rows \<open>apply\<close> returns a table, not a column,
  and the assignment to \<open>wrap_day\<close> raises ValueError.
\<close>

definition with_calendar :: "frame \<Rightarrow> error + frame" where
  "with_calendar raw_timeseries =
     then_do (get_column raw_timeseries ''date'') (\<lambda>dc.
     then_do (as_dates dc) (\<lambda>ds.
     if index_length raw_timeseries = 0 then Inl ValueError
     else
     then_do (wrap_days ds) (\<lambda>ws.
       Inr (raw_timeseries
         \<lparr>columns :=
            put_column ''wrap_day'' (ObjectCol (map PDate ws))
              (rename_column ''date2'' ''date''
                (drop_column ''date''
                  (put_column ''date2'' (ObjectCol (map PDate ds))
                    (put_column ''day'' (IntCol (map (\<lambda>(y, m, d). d) ds))
                      (put_column ''month'' (IntCol (map (\<lambda>(y, m, d). m) ds))
                        (put_column ''year'' (IntCol (map (\<lambda>(y, m, d). y) ds))
                          (put_column ''date'' (ObjectCol (map PDate ds))
                            (columns raw_timeseries))))))))\<rparr>))))"

text \<open>
  \<open>calc_timeseries\<close> starts with \<open>timeseries.copy()\<close>: of the values it can return only
  a table can be passed back to it.
\<close>

fun frame_of :: "result \<Rightarrow> error + frame" where
  "frame_of (ResFrame f) = Inr f"
| "frame_of _ = Inl AttributeError"

text \<open>
  \<open>frame[name] = value\<close>: an array must have the length of the index (ValueError
  otherwise); a column is aligned on the index, missing rows becoming NaN; None fills
  the column; a table is refused.
\<close>

definition align :: "nat \<Rightarrow> flt list \<Rightarrow> flt list" where
  "align n xs = take n xs @ replicate (n - length xs) NaN"

fun assign_result :: "frame \<Rightarrow> string \<Rightarrow> result \<Rightarrow> error + frame" where
  "assign_result f name (ResArray c) =
     (if column_length c = index_length f
      then Inr (f\<lparr>columns := put_column name c (columns f)\<rparr>)
      else Inl ValueError)"
| "assign_result f name (ResSeries xs) =
     Inr (f\<lparr>columns := put_column name (FloatCol (align (index_length f) xs)) (columns f)\<rparr>)"
| "assign_result f name ResNone =
     Inr (f\<lparr>columns := put_column name (ObjectCol (replicate (index_length f) PNone)) (columns f)\<rparr>)"
| "assign_result f name (ResFrame g) = Inl ValueError"

text \<open>Lines 599 to 610: the climatological mean and quantile, tiled over the years.\<close>

definition with_climatology :: "bool \<Rightarrow> frame \<Rightarrow> error + frame" where
  "with_climatology mhw anhalyzed_timeseries =
     then_do (calc_timeseries anhalyzed_timeseries ''g_mean'' None) (\<lambda>r1.
     then_do (frame_of r1) (\<lambda>timeseries_year_mean.
     then_do (calc_timeseries anhalyzed_timeseries (actions mhw ! 0) None) (\<lambda>r2.
     then_do (frame_of r2) (\<lambda>timeseries_year_quantile.
     then_do (calc_timeseries timeseries_year_mean ''add_long'' (Some n_year_const)) (\<lambda>a1.
     then_do (assign_result anhalyzed_timeseries ''var_mean_mean'' a1) (\<lambda>t1.
     then_do (calc_timeseries timeseries_year_quantile ''add_long'' (Some n_year_const)) (\<lambda>a2.
       assign_result t1 ''var_mean_quantile'' a2)))))))"

text \<open>Lines 613 to 615: the three threshold columns.\<close>

definition with_thresholds :: "bool \<Rightarrow> frame \<Rightarrow> error + frame" where
  "with_thresholds mhw anhalyzed_timeseries =
     then_do (calc_timeseries anhalyzed_timeseries (actions mhw ! 1) None) (\<lambda>r2.
     then_do (assign_result anhalyzed_timeseries ''var_mean_2T'' r2) (\<lambda>t2.
     then_do (calc_timeseries t2 (actions mhw ! 2) None) (\<lambda>r3.
     then_do (assign_result t2 ''var_mean_3T'' r3) (\<lambda>t3.
     then_do (calc_timeseries t3 (actions mhw ! 3) None) (\<lambda>r4.
       assign_result t3 ''var_mean_4T'' r4)))))"

definition anhalize_timeseries :: "frame \<Rightarrow> bool \<Rightarrow> error + frame" where
  "anhalize_timeseries raw_timeseries mhw =
     then_do (with_calendar raw_timeseries) (\<lambda>t.
     then_do (with_climatology mhw t) (\<lambda>t'. with_thresholds mhw t'))"

text \<open>The values of a column of floats of a table (empty for any other column).\<close>

definition float_column :: "frame \<Rightarrow> string \<Rightarrow> flt list" where
  "float_column f name = (case map_of (columns f) name of Some (FloatCol xs) \<Rightarrow> xs | _ \<Rightarrow> [])"

section \<open>Examples\<close>

text \<open>
  Concrete inputs on which the theorems below are instantiated. First the environments:
  a deployment host with an empty environment, a laptop with both variables set and a
  data directory of three files, and a laptop with only MASK\_PATH set.
\<close>

definition no_files :: "string \<Rightarrow> error + string list" where
  "no_files p = Inl FileNotFoundError"

definition portal_world :: world where
  "portal_world =
     \<lparr>hostname = ''portal1.example.org'', environ = Map.empty, listdir = no_files,
      stdin_line = ''''\<rparr>"

definition example_listing :: "string \<Rightarrow> error + string list" where
  "example_listing p =
     (if p = ''/data/'' then
        Inr [''R_y1998m02d01_gridT.nc'', ''R_y1999m01d01_gridT.nc'', ''R_y1998m01d01_gridT.nc'']
      else Inl FileNotFoundError)"

definition laptop_world :: world where
  "laptop_world =
     \<lparr>hostname = ''laptop'',
      environ = [''MASK_PATH'' \<mapsto> ''/masks/'', ''DATA_PATH'' \<mapsto> ''/data/''],
      listdir = example_listing, stdin_line = ''''\<rparr>"

definition bare_world :: world where
  "bare_world =
     \<lparr>hostname = ''laptop'', environ = [''MASK_PATH'' \<mapsto> ''/masks/''],
      listdir = no_files, stdin_line = ''''\<rparr>"

definition run_1998 :: anhalyze where
  "run_1998 = \<lparr>run_name = None, grid = ''T'', years = [''1998'']\<rparr>"

text \<open>
  Example grids. The first is separable: the latitude of a cell is 50 plus its row, the
  longitude is - 90 plus its column, on 6 rows and 5 columns. The second is one cell
  south of the equator.
\<close>

definition separable_grid :: dataset where
  "separable_grid =
     \<lparr>n_rows = 6, n_cols = 5,
      nav_lat_grid_T = (\<lambda>i j. 50 + real i), nav_lon_grid_T = (\<lambda>i j. - 90 + real j),
      nav_lat = (\<lambda>i j. 50 + real i), nav_lon = (\<lambda>i j. - 90 + real j)\<rparr>"

definition southern_cell :: dataset where
  "southern_cell =
     \<lparr>n_rows = 1, n_cols = 1,
      nav_lat_grid_T = (\<lambda>i j. - 5), nav_lon_grid_T = (\<lambda>i j. - 30),
      nav_lat = (\<lambda>i j. - 5), nav_lon = (\<lambda>i j. - 30)\<rparr>"

text \<open>A reader that yields the same 2 by 2 field, with one missing cell, for every file.\<close>

definition example_field :: "string \<Rightarrow> error + field" where
  "example_field filename = Inr [[Val 1, Val 2], [Val 3, NaN]]"

text \<open>
  A series of 52 years, one row for the 15th of July of each year from 1958 to 2009:
  the daily mean is 0 up to 1983 and 10 from 1984 on.
\<close>

definition july_series :: frame where
  "july_series =
     \<lparr>index_length = 52,
      columns =
        [(''date'', ObjectCol (map (\<lambda>y. PDate (y, 7, 15)) [1958..2009])),
         (''var_mean'', FloatCol (map (\<lambda>y. Val (if y < 1984 then 0 else 10)) [1958..2009])),
         (''var_std'', FloatCol (map (\<lambda>y. Val 1) [1958..2009]))]\<rparr>"

section \<open>Properties of the string functions\<close>

lemma str_in_sublist: "str_in sub s = sublist sub s"
  by (induction s) (simp_all add: sublist_Cons_right)

lemma str_in_iff: "str_in sub s \<longleftrightarrow> (\<exists>p q. s = p @ sub @ q)"
  by (simp add: str_in_sublist sublist_def)

lemma str_in_single: "str_in [c] s \<longleftrightarrow> c \<in> set s"
  by (induction s) auto

lemma str_split_length: "length (str_split c s) = Suc (length (filter (\<lambda>x. x = c) s))"
  by (induction s) (auto split: list.splits)

lemma str_split_two: "c \<in> set s \<Longrightarrow> 2 \<le> length (str_split c s)"
  by (simp add: str_split_length filter_empty_conv Suc_le_eq)

lemma str_in_short:
  assumes "length s \<le> length sub"
  shows "str_in sub s \<longleftrightarrow> s = sub"
proof
  assume "str_in sub s"
  then obtain p q where "s = p @ sub @ q" by (auto simp: str_in_iff)
  with assms show "s = sub" by simp
next
  assume "s = sub"
  then have "s = [] @ sub @ []" by simp
  then show "str_in sub s" unfolding str_in_iff by blast
qed

section \<open>Properties of get\_paths\<close>

lemma user_path_cases:
  assumes "length code \<le> 2"
  shows "user_path code =
     (if code \<in> {''JM'', ''PM''} then Inr ''jmarson''
      else if code = ''MC'' then Inr ''madhurima''
      else if code = ''EE'' then Inr ''emilio''
      else Inl ValueError)"
  using assms by (simp add: user_path_def str_in_short)

text \<open>
  Claim C5. On a deployment host, for a run identifier that passes the three format
  assertions (it contains \<open>-\<close> and \<open>ANHA\<close> and has the length of \<open>ANHA4-WJM000\<close>),
  \<open>get_paths\<close> prints nothing and its result is a function of the identifier alone:
  the data and mask paths of the user the 2-character code names, or ValueError (the
  specification's InvalidRunIdentifier) when the code is not in the table.
\<close>

theorem get_paths_deployment:
  assumes host: "str_in ''portal'' (hostname w)"
      and sep: "str_in ''-'' r"
      and model: "str_in ''ANHA'' r"
      and len: "length r = 12"
  shows "get_paths w (Some r) False =
     ([],
      let model_path = hd (str_split CHR ''-'' r);
          code = upper (slice 1 3 (str_split CHR ''-'' r ! 1))
      in if code \<in> {''JM'', ''PM''} then
           Inr (''/mnt/storage0/jmarson/NEMO/'' @ model_path @ ''/'' @ r @ ''-S/'',
                ''/mnt/storage0/jmarson/ANALYSES/MASKS/'')
         else if code = ''MC'' then
           Inr (''/mnt/storage0/madhurima/NEMO/'' @ model_path @ ''/'' @ r @ ''-S/'',
                ''/mnt/storage0/madhurima/ANALYSES/MASKS/'')
         else if code = ''EE'' then
           Inr (''/mnt/storage0/emilio/NEMO/'' @ model_path @ ''/'' @ r @ ''-S/'',
                ''/mnt/storage0/emilio/ANALYSES/MASKS/'')
         else Inl ValueError)"
proof -
  define parts where "parts = str_split CHR ''-'' r"
  define code where "code = upper (slice 1 3 (parts ! 1))"
  from sep have two: "2 \<le> length parts"
    by (simp add: parts_def str_in_single str_split_two)
  from len have ne: "r \<noteq> []" by auto
  have mode: "\<not> environment_mode w (Some r) False"
    using host ne by (simp add: environment_mode_def run_name_given_def)
  have i0: "py_index parts 0 = Inr (hd parts)"
    using two by (cases parts) (simp_all add: py_index_def)
  have i1: "py_index parts 1 = Inr (parts ! 1)"
    using two by (simp add: py_index_def)
  have ui: "user_initials r = Inr code"
    by (simp add: user_initials_def i1 code_def flip: parts_def)
  have short: "length code \<le> 2"
    by (simp add: code_def upper_def slice_def)
  have "get_paths w (Some r) False = ([], paths_from_run_name r)"
    using mode by (simp add: get_paths_def)
  also have "paths_from_run_name r =
      (case user_path code of
         Inl e \<Rightarrow> Inl e
       | Inr up \<Rightarrow>
           Inr (''/mnt/storage0/'' @ up @ ''/NEMO/'' @ hd parts @ ''/'' @ r @ ''-S/'',
                ''/mnt/storage0/'' @ up @ ''/ANALYSES/MASKS/''))"
    using sep model len by (simp add: paths_from_run_name_def i0 ui flip: parts_def)
  finally have "get_paths w (Some r) False =
     ([],
      let model_path = hd parts; code = code
      in if code \<in> {''JM'', ''PM''} then
           Inr (''/mnt/storage0/jmarson/NEMO/'' @ model_path @ ''/'' @ r @ ''-S/'',
                ''/mnt/storage0/jmarson/ANALYSES/MASKS/'')
         else if code = ''MC'' then
           Inr (''/mnt/storage0/madhurima/NEMO/'' @ model_path @ ''/'' @ r @ ''-S/'',
                ''/mnt/storage0/madhurima/ANALYSES/MASKS/'')
         else if code = ''EE'' then
           Inr (''/mnt/storage0/emilio/NEMO/'' @ model_path @ ''/'' @ r @ ''-S/'',
                ''/mnt/storage0/emilio/ANALYSES/MASKS/'')
         else Inl ValueError)"
    by (simp add: user_path_cases [OF short] Let_def)
  then show ?thesis unfolding code_def parts_def .
qed

theorem get_paths_deployment_witness:
  "get_paths portal_world (Some ''ANHA4-WJM004'') False =
     ([], Inr (''/mnt/storage0/jmarson/NEMO/ANHA4/ANHA4-WJM004-S/'',
               ''/mnt/storage0/jmarson/ANALYSES/MASKS/''))
   \<and> get_paths portal_world (Some ''ANHA4-XYZ004'') False = ([], Inl ValueError)"
proof -
  have host: "str_in ''portal'' (hostname portal_world)"
    unfolding portal_world_def by code_simp
  have w1: "str_in ''-'' ''ANHA4-WJM004''" "str_in ''ANHA'' ''ANHA4-WJM004''"
    "length ''ANHA4-WJM004'' = 12"
    by code_simp+
  have x1: "str_in ''-'' ''ANHA4-XYZ004''" "str_in ''ANHA'' ''ANHA4-XYZ004''"
    "length ''ANHA4-XYZ004'' = 12"
    by code_simp+
  have sw: "str_split CHR ''-'' ''ANHA4-WJM004'' = [''ANHA4'', ''WJM004'']"
    by code_simp
  have sx: "str_split CHR ''-'' ''ANHA4-XYZ004'' = [''ANHA4'', ''XYZ004'']"
    by code_simp
  have cw: "upper (slice (Suc 0) 3 ''WJM004'') = ''JM''" by code_simp
  have cx: "upper (slice (Suc 0) 3 ''XYZ004'') = ''YZ''" by code_simp
  show ?thesis
    using get_paths_deployment [OF host w1] get_paths_deployment [OF host x1]
    by (simp add: sw sx cw cx Let_def)
qed

text \<open>
  Claim C6. When the test of line 37 holds (environment mode is forced, the host is not a
  deployment host, or no run name is given): if MASK\_PATH or DATA\_PATH is unset the call
  prints the remediation message and fails (UnboundLocalError at the \<open>return\<close>, the
  specification's ConfigurationError); if both are set it returns their values as
  \<open>(data_path, mask_path)\<close>.
\<close>

theorem get_paths_environment:
  assumes "environment_mode w r environ_paths"
  shows "(environ w ''MASK_PATH'' = None \<or> environ w ''DATA_PATH'' = None \<longrightarrow>
            get_paths w r environ_paths = ([paths_message], Inl UnboundLocalError))
       \<and> (\<forall>data_path mask_path.
            environ w ''DATA_PATH'' = Some data_path \<and> environ w ''MASK_PATH'' = Some mask_path \<longrightarrow>
            get_paths w r environ_paths = ([], Inr (data_path, mask_path)))"
  using assms by (auto simp: get_paths_def paths_from_environ_def split: option.splits)

theorem get_paths_environment_witness:
  "environment_mode bare_world (Some ''ANHA4-WJM004'') False
   \<and> environ bare_world ''DATA_PATH'' = None
   \<and> get_paths bare_world (Some ''ANHA4-WJM004'') False = ([paths_message], Inl UnboundLocalError)
   \<and> environment_mode portal_world None False
   \<and> environ portal_world ''MASK_PATH'' = None
   \<and> get_paths portal_world None False = ([paths_message], Inl UnboundLocalError)
   \<and> environment_mode portal_world (Some ''ANHA4-WJM004'') True
   \<and> get_paths portal_world (Some ''ANHA4-WJM004'') True = ([paths_message], Inl UnboundLocalError)
   \<and> environment_mode laptop_world None False
   \<and> get_paths laptop_world None False = ([], Inr (''/data/'', ''/masks/''))"
proof -
  have m1: "environment_mode bare_world (Some ''ANHA4-WJM004'') False"
    unfolding bare_world_def by code_simp
  have m2: "environment_mode portal_world None False"
    unfolding portal_world_def by code_simp
  have m3: "environment_mode portal_world (Some ''ANHA4-WJM004'') True"
    unfolding portal_world_def by code_simp
  have m4: "environment_mode laptop_world None False"
    unfolding laptop_world_def by code_simp
  have e1: "environ bare_world ''DATA_PATH'' = None"
    by (simp add: bare_world_def)
  have e2: "environ portal_world ''MASK_PATH'' = None"
    by (simp add: portal_world_def)
  have e4: "environ laptop_world ''DATA_PATH'' = Some ''/data/''"
    "environ laptop_world ''MASK_PATH'' = Some ''/masks/''"
    by (simp_all add: laptop_world_def)
  show ?thesis
    using get_paths_environment [OF m1] get_paths_environment [OF m2]
      get_paths_environment [OF m3] get_paths_environment [OF m4] m1 m2 m3 m4 e1 e2 e4
    by simp
qed

section \<open>Properties of get\_file\_list\<close>

lemma year_files_sorted: "sorted (year_files file_list g year)"
  by (simp add: year_files_def)

lemma year_files_mset:
  "mset (year_files file_list g year) =
     filter_mset (\<lambda>f. str_in (''_y'' @ year) f \<and> str_in (''_grid'' @ g) f) (mset file_list)"
  by (simp add: year_files_def year_grid_match_def)

lemma set_select_years:
  "set (select_years file_list g ys) =
     {f \<in> set file_list. \<exists>year \<in> set ys. str_in (''_y'' @ year) f \<and> str_in (''_grid'' @ g) f}"
  by (auto simp: select_years_def year_files_def year_grid_match_def)

lemma all_of_months_empty:
  "all_of_months sel ys ms = [] \<longleftrightarrow>
     (\<forall>year \<in> set ys. \<forall>m \<in> set ms. \<forall>f \<in> set sel. \<not> str_in (file_name_stump year m) f)"
  by (auto simp: all_of_months_def filter_empty_conv)

lemma get_file_list_unfold:
  assumes "snd (get_paths w (run_name self) False) = Inr (data_path, mask_path)"
      and "listdir w data_path = Inr file_list"
  shows "get_file_list w self month_list one_per_month False =
     (case monthly_selection (select_years file_list (grid self) (years self)) (years self)
             (case month_list of None \<Rightarrow> [] | Some ms \<Rightarrow> ms) one_per_month of
        Inl e \<Rightarrow> Inl e
      | Inr monthly_file_list \<Rightarrow>
          Inr (map (\<lambda>filename. data_path @ filename)
                (if monthly_file_list \<noteq> [] then monthly_file_list
                 else select_years file_list (grid self) (years self))))"
  using assms by (simp add: get_file_list_def Let_def)

text \<open>
  Claim C8. With no month list and \<open>one_per_month\<close> off, \<open>get_file_list\<close> returns, for
  the years in the order given, the files of the directory listing whose names contain
  \<open>_y<year>\<close> and \<open>_grid<grid>\<close>; each year's files are sorted and are exactly the
  matching entries of the listing; every entry is prefixed with the data path.
\<close>

theorem get_file_list_years:
  assumes "snd (get_paths w (run_name self) False) = Inr (data_path, mask_path)"
      and "listdir w data_path = Inr file_list"
  shows "get_file_list w self None False False =
           Inr (map (\<lambda>f. data_path @ f)
                 (concat (map (year_files file_list (grid self)) (years self))))
       \<and> (\<forall>year. sorted (year_files file_list (grid self) year)
             \<and> mset (year_files file_list (grid self) year) =
                 filter_mset (\<lambda>f. str_in (''_y'' @ year) f \<and> str_in (''_grid'' @ grid self) f)
                   (mset file_list))"
  by (simp add: get_file_list_unfold [OF assms] monthly_selection_def select_years_def
        year_files_sorted year_files_mset)

theorem get_file_list_years_witness:
  "get_file_list laptop_world run_1998 None False False =
     Inr [''/data/R_y1998m01d01_gridT.nc'', ''/data/R_y1998m02d01_gridT.nc'']"
proof -
  have p: "snd (get_paths laptop_world (run_name run_1998) False) = Inr (''/data/'', ''/masks/'')"
    unfolding laptop_world_def run_1998_def by code_simp
  have d: "listdir laptop_world ''/data/'' =
      Inr [''R_y1998m02d01_gridT.nc'', ''R_y1999m01d01_gridT.nc'', ''R_y1998m01d01_gridT.nc'']"
    unfolding laptop_world_def example_listing_def by simp
  have y: "year_files [''R_y1998m02d01_gridT.nc'', ''R_y1999m01d01_gridT.nc'',
        ''R_y1998m01d01_gridT.nc''] ''T'' ''1998'' =
      [''R_y1998m01d01_gridT.nc'', ''R_y1998m02d01_gridT.nc'']"
    by code_simp
  have g: "grid run_1998 = ''T''" "years run_1998 = [''1998'']"
    by (simp_all add: run_1998_def)
  show ?thesis
    using get_file_list_years [OF p d] by (simp add: g y)
qed

text \<open>
  Claim C9. With \<open>one_per_month\<close> on and no month list, the months are taken from the
  selected files as integers (\<open>get_date(filename, how='m')\<close>), so the file of January
  1998 gives the stump \<open>y1998m1\<close>, which is not in \<open>R_y1998m01d01_gridT.nc\<close>: the call
  raises IndexError although a file of that year and month is in the listing.
\<close>

theorem get_file_list_one_per_month_found:
  "get_file_list laptop_world run_1998 None True False = Inl IndexError"
  unfolding laptop_world_def run_1998_def example_listing_def by code_simp

lemma months_found_example:
  "months_found [''R_y1998m01d01_gridT.nc'', ''R_y1998m02d01_gridT.nc''] =
     Inr [MonthInt 1, MonthInt 2]
   \<and> file_name_stump ''1998'' (MonthInt 1) = ''y1998m1''
   \<and> \<not> str_in ''y1998m1'' ''R_y1998m01d01_gridT.nc''
   \<and> \<not> str_in ''y1998m1'' ''R_y1998m02d01_gridT.nc''"
  by code_simp

text \<open>
  Claim C10. With \<open>one_per_month\<close> off and a month list none of whose year and month
  stumps occurs in a selected file name, the month selection is empty and the function
  returns what it returns with no month list: every file of the requested years.
\<close>

theorem get_file_list_months_unmatched:
  assumes "snd (get_paths w (run_name self) False) = Inr (data_path, mask_path)"
      and "listdir w data_path = Inr file_list"
      and "month_list \<noteq> []"
      and "\<forall>year \<in> set (years self). \<forall>m \<in> set month_list.
             \<forall>f \<in> set (select_years file_list (grid self) (years self)).
               \<not> str_in (file_name_stump year m) f"
  shows "get_file_list w self (Some month_list) False False =
           Inr (map (\<lambda>f. data_path @ f) (select_years file_list (grid self) (years self)))
       \<and> get_file_list w self (Some month_list) False False =
           get_file_list w self None False False"
proof -
  have "all_of_months (select_years file_list (grid self) (years self)) (years self) month_list = []"
    using assms(4) by (simp only: all_of_months_empty)
  then show ?thesis
    using assms(3)
    by (simp add: get_file_list_unfold [OF assms(1,2)] monthly_selection_def)
qed

theorem get_file_list_months_unmatched_witness:
  "get_file_list laptop_world run_1998 (Some [MonthStr ''07'']) False False =
     Inr [''/data/R_y1998m01d01_gridT.nc'', ''/data/R_y1998m02d01_gridT.nc'']"
proof -
  let ?l = "[''R_y1998m02d01_gridT.nc'', ''R_y1999m01d01_gridT.nc'', ''R_y1998m01d01_gridT.nc'']"
  have p: "snd (get_paths laptop_world (run_name run_1998) False) = Inr (''/data/'', ''/masks/'')"
    unfolding laptop_world_def run_1998_def by code_simp
  have d: "listdir laptop_world ''/data/'' = Inr ?l"
    unfolding laptop_world_def example_listing_def by simp
  have g: "grid run_1998 = ''T''" "years run_1998 = [''1998'']"
    by (simp_all add: run_1998_def)
  have s: "select_years ?l ''T'' [''1998''] =
      [''R_y1998m01d01_gridT.nc'', ''R_y1998m02d01_gridT.nc'']"
    by code_simp
  have n: "\<not> str_in (file_name_stump ''1998'' (MonthStr ''07'')) ''R_y1998m01d01_gridT.nc''"
    "\<not> str_in (file_name_stump ''1998'' (MonthStr ''07'')) ''R_y1998m02d01_gridT.nc''"
    by code_simp+
  have h: "\<forall>year \<in> set (years run_1998). \<forall>m \<in> set [MonthStr ''07''].
             \<forall>f \<in> set (select_years ?l (grid run_1998) (years run_1998)).
               \<not> str_in (file_name_stump year m) f"
    using n by (simp add: g s)
  have ne: "[MonthStr ''07''] \<noteq> []" by simp
  show ?thesis
    using get_file_list_months_unmatched [OF p d ne h] by (simp add: g s)
qed

section \<open>Properties of get\_row\_col\_range\<close>

lemma first_last_cases:
  "first_last xs = (if xs = [] then Inl IndexError else Inr (hd xs, last xs))"
  by (cases xs rule: rev_cases)
    (auto simp: first_last_def py_index_def nth_append hd_append hd_conv_nth)

lemma get_row_col_range_error:
  "get_row_col_range data lat_range lon_range g = Inl e \<longleftrightarrow>
     (row_ranges data g lat_range lon_range = [] \<or> col_ranges data g lat_range lon_range = [])
     \<and> e = IndexError"
  by (auto simp: get_row_col_range_def first_last_cases)

lemma mask_cell_unselected:
  "\<not> cell_selected data g lat_range lon_range i j \<Longrightarrow> mask_cell data g lat_range lon_range i j = 0"
  by (simp add: mask_cell_def)

lemma sum_list_zero: "(\<And>x. x \<in> set xs \<Longrightarrow> f x = (0::real)) \<Longrightarrow> sum_list (map f xs) = 0"
  by (induction xs) auto

text \<open>
  Claim C4. When no cell of the grid satisfies both the latitude and the longitude
  predicate, the candidate row list and the candidate column list are empty; and whenever
  one of the two lists is empty, \<open>get_row_col_range\<close> fails with IndexError (the
  specification's EmptyRegionError) instead of returning a range.
\<close>

theorem get_row_col_range_empty:
  assumes "\<forall>i < n_rows data. \<forall>j < n_cols data. \<not> cell_selected data g lat_range lon_range i j"
  shows "row_ranges data g lat_range lon_range = []
       \<and> col_ranges data g lat_range lon_range = []
       \<and> get_row_col_range data lat_range lon_range g = Inl IndexError"
proof -
  have rows: "sum_list (map (\<lambda>j. mask_cell data g lat_range lon_range i j) [0..<n_cols data]) = 0"
    if "i < n_rows data" for i
    using assms that by (intro sum_list_zero) (simp add: mask_cell_unselected)
  have cols: "sum_list (map (\<lambda>i. mask_cell data g lat_range lon_range i j) [0..<n_rows data]) = 0"
    if "j < n_cols data" for j
    using assms that by (intro sum_list_zero) (simp add: mask_cell_unselected)
  have r: "row_ranges data g lat_range lon_range = []"
    by (simp add: row_ranges_def filter_empty_conv rows)
  have c: "col_ranges data g lat_range lon_range = []"
    by (simp add: col_ranges_def filter_empty_conv cols)
  from r c show ?thesis
    by (simp add: get_row_col_range_error)
qed

theorem get_row_col_range_empty_witness:
  "get_row_col_range separable_grid (60, 70) (- 89.5, - 86.5) ''gridT'' = Inl IndexError"
proof -
  have "\<forall>i < n_rows separable_grid. \<forall>j < n_cols separable_grid.
          \<not> cell_selected separable_grid ''gridT'' (60, 70) (- 89.5, - 86.5) i j"
    by (simp add: separable_grid_def cell_selected_def in_range_def grid_lat_def)
  from get_row_col_range_empty [OF this] show ?thesis by simp
qed

text \<open>
  Claim C3. A cell south of the equator that lies strictly inside the box is selected by
  the two predicates, but the row and column sums are taken over the masked latitudes
  and compared with 0: the sum is negative, no row is a candidate, and the call raises
  IndexError instead of returning the range of the cell.
\<close>

theorem get_row_col_range_southern:
  "cell_selected southern_cell ''gridT'' (- 10, 0) (- 40, - 20) 0 0
   \<and> get_row_col_range southern_cell (- 10, 0) (- 40, - 20) ''gridT'' = Inl IndexError"
  unfolding southern_cell_def by code_simp

lemma sum_list_pos_iff:
  "(\<And>x. x \<in> set xs \<Longrightarrow> 0 \<le> f x) \<Longrightarrow> 0 < sum_list (map f xs) \<longleftrightarrow> (\<exists>x \<in> set xs. 0 < (f x :: real))"
proof (induction xs)
  case Nil
  then show ?case by simp
next
  case (Cons a xs)
  have a: "0 \<le> f a"
    using Cons.prems by simp
  have s: "0 \<le> sum_list (map f xs)"
    by (rule sum_list_nonneg) (use Cons.prems in auto)
  have ih: "0 < sum_list (map f xs) \<longleftrightarrow> (\<exists>x \<in> set xs. 0 < f x)"
    using Cons by simp
  show ?case
    using a s ih by (auto simp: add_pos_nonneg add_nonneg_pos) 
qed

lemma sorted_hd_Min: "sorted xs \<Longrightarrow> xs \<noteq> [] \<Longrightarrow> hd xs = Min (set xs)"
  by (cases xs) (auto intro!: Min_eqI [symmetric])

lemma sorted_last_Max: "sorted xs \<Longrightarrow> xs \<noteq> [] \<Longrightarrow> last xs = Max (set xs)"
  by (cases xs rule: rev_cases) (auto simp: sorted_append intro!: Max_eqI [symmetric])

text \<open>
  Where every selected cell has a positive latitude, the claim holds: a row is a
  candidate exactly when it contains a selected cell, and the ranges returned are the
  first and last such row and column. The separable example of the specification is an
  instance.
\<close>

lemma get_row_col_range_northern:
  assumes pos: "\<And>i j. i < n_rows data \<Longrightarrow> j < n_cols data \<Longrightarrow>
                  cell_selected data g lat_range lon_range i j \<Longrightarrow> 0 < grid_lat data g i j"
      and some: "i0 < n_rows data" "j0 < n_cols data" "cell_selected data g lat_range lon_range i0 j0"
  shows "get_row_col_range data lat_range lon_range g =
           Inr ((Min (selected_rows data g lat_range lon_range),
                 Max (selected_rows data g lat_range lon_range)),
                (Min (selected_cols data g lat_range lon_range),
                 Max (selected_cols data g lat_range lon_range)))"
proof -
  let ?m = "mask_cell data g lat_range lon_range"
  let ?sel = "cell_selected data g lat_range lon_range"
  have nonneg: "0 \<le> ?m i j" if "i < n_rows data" "j < n_cols data" for i j
    using pos [OF that] by (auto simp: mask_cell_def less_imp_le)
  have posm: "0 < ?m i j \<longleftrightarrow> ?sel i j" if "i < n_rows data" "j < n_cols data" for i j
    using pos [OF that] by (auto simp: mask_cell_def)
  have row: "0 < sum_list (map (\<lambda>j. ?m i j) [0..<n_cols data]) \<longleftrightarrow> (\<exists>j < n_cols data. ?sel i j)"
    if "i < n_rows data" for i
    using that by (subst sum_list_pos_iff) (auto simp: nonneg posm)
  have col: "0 < sum_list (map (\<lambda>i. ?m i j) [0..<n_rows data]) \<longleftrightarrow> (\<exists>i < n_rows data. ?sel i j)"
    if "j < n_cols data" for j
    using that by (subst sum_list_pos_iff) (auto simp: nonneg posm)
  have rset: "set (row_ranges data g lat_range lon_range) = selected_rows data g lat_range lon_range"
    by (auto simp: row_ranges_def selected_rows_def row)
  have cset: "set (col_ranges data g lat_range lon_range) = selected_cols data g lat_range lon_range"
    by (auto simp: col_ranges_def selected_cols_def col)
  have rsorted: "sorted (row_ranges data g lat_range lon_range)"
    unfolding row_ranges_def by (intro sorted_wrt_filter) simp
  have csorted: "sorted (col_ranges data g lat_range lon_range)"
    unfolding col_ranges_def by (intro sorted_wrt_filter) simp
  have "i0 \<in> selected_rows data g lat_range lon_range" "j0 \<in> selected_cols data g lat_range lon_range"
    using some by (auto simp: selected_rows_def selected_cols_def)
  then have rne: "row_ranges data g lat_range lon_range \<noteq> []"
    and cne: "col_ranges data g lat_range lon_range \<noteq> []"
    using rset cset by auto
  show ?thesis
    using rne cne
    by (simp add: get_row_col_range_def first_last_cases sorted_hd_Min [OF rsorted]
          sorted_last_Max [OF rsorted] sorted_hd_Min [OF csorted] sorted_last_Max [OF csorted]
          rset cset)
qed

lemma get_row_col_range_separable:
  "get_row_col_range separable_grid (51.5, 54.5) (- 89.5, - 86.5) ''gridT'' = Inr ((2, 4), (1, 3))"
  unfolding separable_grid_def by code_simp

section \<open>Properties of calc\_stats\_var\_data\<close>

lemma finite_values_all_nan: "list_all (\<lambda>c. c = NaN) xs \<Longrightarrow> finite_values xs = []"
  by (induction xs) auto

lemma finite_values_append: "finite_values (xs @ ys) = finite_values xs @ finite_values ys"
  by (induction xs rule: finite_values.induct) auto

lemma finite_values_Val: "finite_values (map Val v) = v"
  by (induction v) auto

lemma sum_list_finite_values:
  "sum_list (map f (finite_values cells)) =
     (\<Sum>c\<leftarrow>cells. case c of NaN \<Rightarrow> 0 | Val x \<Rightarrow> (f x :: real))"
  by (induction cells rule: finite_values.induct) simp_all

lemma length_finite_values:
  "length (finite_values cells) = length (filter (\<lambda>c. c \<noteq> NaN) cells)"
  by (induction cells rule: finite_values.induct) simp_all

lemma set_finite_values: "set (finite_values cells) = {x. Val x \<in> set cells}"
  by (induction cells rule: finite_values.induct) auto

lemma fold_min_Min:
  assumes "v \<noteq> []"
  shows "fold min (tl v) (hd v) = Min (set (v :: real list))"
proof (cases v)
  case Nil
  with assms show ?thesis by simp
next
  case (Cons x xs)
  then show ?thesis using Min.set_eq_fold [of x xs] by simp
qed

lemma fold_max_Max:
  assumes "v \<noteq> []"
  shows "fold max (tl v) (hd v) = Max (set (v :: real list))"
proof (cases v)
  case Nil
  with assms show ?thesis by simp
next
  case (Cons x xs)
  then show ?thesis using Max.set_eq_fold [of x xs] by simp
qed

lemma mean_finite_values:
  "mean (map f (finite_values cells)) =
     (\<Sum>c\<leftarrow>cells. case c of NaN \<Rightarrow> 0 | Val x \<Rightarrow> f x) /
       real (length (filter (\<lambda>c. c \<noteq> NaN) cells))"
  by (simp add: mean_def sum_list_finite_values length_finite_values)

lemma finite_values_filter:
  "finite_values (filter (\<lambda>c. c \<noteq> NaN) cells) = finite_values cells"
  by (induction cells rule: finite_values.induct) simp_all

text \<open>
  A field of no cells (the slice of one selected row, \<open>row_range[0]:row_range[1]\<close>, is
  such a field) has no cell that is not missing, yet with the minimum and maximum
  requested the call raises: \<open>np.nanmin\<close> refuses an array of size 0.
\<close>

theorem calc_stats_var_data_no_cells:
  "list_all (\<lambda>c. c = NaN) (concat ([] :: field))
   \<and> calc_stats_var_data (Inr []) False = Inl ValueError"
  by (simp add: calc_stats_var_data_def nanmin_def)

text \<open>
  Claim C7, amended. With \<open>n\<close> the number of cells that are not NaN, the mean is the sum
  of those cells divided by \<open>n\<close> (a NaN cell adds nothing to the sum and nothing to
  \<open>n\<close>), the deviation is the root of their mean squared distance from the mean, and both
  are NaN when \<open>n = 0\<close>; removing the NaN cells from the field changes nothing. This
  holds in both modes. With the minimum and maximum requested the call returns them too
  (NaN when \<open>n = 0\<close>) for a field that has a cell, and raises ValueError for a field of
  no cells; without them it never raises.
\<close>

theorem calc_stats_var_data_missing:
  fixes a :: field
  defines "cells \<equiv> concat a"
  defines "n \<equiv> length (filter (\<lambda>c. c \<noteq> NaN) cells)"
  defines "mu \<equiv> (\<Sum>c\<leftarrow>cells. case c of NaN \<Rightarrow> 0 | Val x \<Rightarrow> x) / real n"
  defines "var_mean \<equiv> (if n = 0 then NaN else Val mu)"
  defines "var_std \<equiv>
    (if n = 0 then NaN
     else Val (sqrt ((\<Sum>c\<leftarrow>cells. case c of NaN \<Rightarrow> 0 | Val x \<Rightarrow> (x - mu)\<^sup>2) / real n)))"
  shows "calc_stats_var_data (Inr a) True = Inr (MeanStd var_mean var_std)
       \<and> (cells \<noteq> [] \<longrightarrow>
            calc_stats_var_data (Inr a) False =
              Inr (MeanStdMinMax var_mean var_std
                    (if n = 0 then NaN else Val (Min {x. Val x \<in> set cells}))
                    (if n = 0 then NaN else Val (Max {x. Val x \<in> set cells}))))
       \<and> (cells = [] \<longrightarrow> calc_stats_var_data (Inr a) False = Inl ValueError)
       \<and> (list_all (\<lambda>c. c = NaN) cells \<longrightarrow> var_mean = NaN \<and> var_std = NaN)
       \<and> calc_stats_var_data (Inr [filter (\<lambda>c. c \<noteq> NaN) cells]) True =
           calc_stats_var_data (Inr a) True"
proof -
  define v where "v = finite_values cells"
  have n: "length v = n"
    by (simp add: v_def n_def length_finite_values)
  have empty: "v = [] \<longleftrightarrow> n = 0"
    using n by auto
  have m: "mean v = mu"
    using mean_finite_values [of "\<lambda>x. x" cells] by (simp add: v_def mu_def n_def)
  have s: "mean (map (\<lambda>x. (x - mu)\<^sup>2) v) =
      (\<Sum>c\<leftarrow>cells. case c of NaN \<Rightarrow> 0 | Val x \<Rightarrow> (x - mu)\<^sup>2) / real n"
    by (simp add: v_def n_def mean_finite_values)
  have mean: "nanmean a = var_mean"
    by (simp add: nanmean_def var_mean_def empty m flip: cells_def v_def)
  have std: "nanstd a = var_std"
    by (simp add: nanstd_def var_std_def empty m s flip: cells_def v_def)
  have mn: "nanmin a = Inr (if n = 0 then NaN else Val (Min {x. Val x \<in> set cells}))"
    if "cells \<noteq> []"
    using that
    by (simp add: nanmin_def empty fold_min_Min flip: cells_def v_def)
      (simp add: v_def set_finite_values)
  have mx: "nanmax a = Inr (if n = 0 then NaN else Val (Max {x. Val x \<in> set cells}))"
    if "cells \<noteq> []"
    using that
    by (simp add: nanmax_def empty fold_max_Max flip: cells_def v_def)
      (simp add: v_def set_finite_values)
  have none: "nanmin a = Inl ValueError" if "cells = []"
    using that by (simp add: nanmin_def flip: cells_def)
  have nan: "n = 0" if "list_all (\<lambda>c. c = NaN) cells"
    using that by (simp add: n_def list_all_iff filter_empty_conv)
  have same: "nanmean [filter (\<lambda>c. c \<noteq> NaN) cells] = nanmean a"
    "nanstd [filter (\<lambda>c. c \<noteq> NaN) cells] = nanstd a"
    by (simp_all add: nanmean_def nanstd_def finite_values_filter flip: cells_def)
  show ?thesis
    by (simp add: calc_stats_var_data_def mean std mn mx none nan same var_mean_def var_std_def)
qed

theorem calc_stats_var_data_missing_witness:
  "calc_stats_var_data (Inr [[Val 1, Val 2], [Val 3, NaN]]) True =
     Inr (MeanStd (Val 2) (Val (sqrt (2 / 3))))
   \<and> calc_stats_var_data (Inr [[Val 1, Val 2], [Val 3, NaN]]) False =
     Inr (MeanStdMinMax (Val 2) (Val (sqrt (2 / 3))) (Val 1) (Val 3))
   \<and> calc_stats_var_data (Inr [[NaN, NaN], [NaN, NaN]]) True = Inr (MeanStd NaN NaN)
   \<and> calc_stats_var_data (Inr [[NaN, NaN], [NaN, NaN]]) False =
     Inr (MeanStdMinMax NaN NaN NaN NaN)
   \<and> calc_stats_var_data (Inr []) True = Inr (MeanStd NaN NaN)
   \<and> calc_stats_var_data (Inr []) False = Inl ValueError"
proof -
  have set1: "{x. Val x \<in> set (concat [[Val 1, Val 2], [Val 3, NaN]])} = {1, 2, 3 :: real}"
    by auto
  note a = calc_stats_var_data_missing [of "[[Val 1, Val 2], [Val 3, NaN]]"]
  note b = calc_stats_var_data_missing [of "[[NaN, NaN], [NaN, NaN]]"]
  note c = calc_stats_var_data_missing [of "[]"]
  have "calc_stats_var_data (Inr [[Val 1, Val 2], [Val 3, NaN]]) True =
      Inr (MeanStd (Val 2) (Val (sqrt (2 / 3))))
    \<and> calc_stats_var_data (Inr [[Val 1, Val 2], [Val 3, NaN]]) False =
      Inr (MeanStdMinMax (Val 2) (Val (sqrt (2 / 3))) (Val 1) (Val 3))"
    using a unfolding set1 by simp
  moreover have "calc_stats_var_data (Inr [[NaN, NaN], [NaN, NaN]]) True = Inr (MeanStd NaN NaN)
    \<and> calc_stats_var_data (Inr [[NaN, NaN], [NaN, NaN]]) False =
      Inr (MeanStdMinMax NaN NaN NaN NaN)"
    using b by simp
  moreover have "calc_stats_var_data (Inr []) True = Inr (MeanStd NaN NaN)
    \<and> calc_stats_var_data (Inr []) False = Inl ValueError"
    using c by simp
  ultimately show ?thesis by blast
qed

lemma sqrt_two_thirds: "0.8164 < sqrt (2 / 3) \<and> sqrt (2 / 3) < (0.8166 :: real)"
proof
  show "0.8164 < sqrt (2 / 3 :: real)"
    by (rule real_less_rsqrt) (simp add: power2_eq_square)
  show "sqrt (2 / 3) < (0.8166 :: real)"
    by (rule real_less_lsqrt) (simp_all add: power2_eq_square)
qed

text \<open>
  With the minimum and maximum requested, a field of NaN cells gives four NaN; only a
  field of no cells makes \<open>np.nanmin\<close> raise.
\<close>

lemma calc_stats_var_data_min_max_nan:
  assumes "list_all (\<lambda>c. c = NaN) (concat a)"
  shows "calc_stats_var_data (Inr a) False =
           (if concat a = [] then Inl ValueError else Inr (MeanStdMinMax NaN NaN NaN NaN))"
  using assms
  by (simp add: calc_stats_var_data_def nanmean_def nanstd_def nanmin_def nanmax_def
        finite_values_all_nan)

section \<open>Properties of get\_timeseries\<close>

lemma ts_setup_value:
  "ts_setup = (\<lparr>dates = 0, var_means = 1, var_stds = 1, var_mins = 2, var_maxs = 2\<rparr>, [[], [], []])"
  by (simp add: ts_setup_def new_list_def)

text \<open>
  What the loop does to the three lists: every file adds one element to the list of
  dates and two to the list that both \<open>var_means\<close> and \<open>var_stds\<close> name.
\<close>

lemma ts_loop_lengths:
  assumes "ts_loop read_var no_min_max
             \<lparr>dates = 0, var_means = 1, var_stds = 1, var_mins = 2, var_maxs = 2\<rparr> fs h = Inr h'"
      and "length h = 3"
  shows "length h' = 3
       \<and> length (h' ! 0) = length (h ! 0) + length fs
       \<and> length (h' ! 1) = length (h ! 1) + 2 * length fs"
  using assms
proof (induction fs arbitrary: h)
  case Nil
  then show ?case by simp
next
  case (Cons f fs)
  let ?l = "\<lparr>dates = 0, var_means = 1, var_stds = 1, var_mins = 2, var_maxs = 2\<rparr>"
  from Cons.prems(1) obtain h1 where
    step: "ts_loop read_var no_min_max ?l fs h1 = Inr h'"
    and h1: "length h1 = 3" "length (h1 ! 0) = length (h ! 0) + 1"
      "length (h1 ! 1) = length (h ! 1) + 2"
    using Cons.prems(2)
    by (auto simp: list_append_def split: sum.splits date_info.splits stats.splits)
  from Cons.IH [OF step h1(1)] h1 show ?case by simp
qed

lemma get_timeseries_raises:
  assumes "file_list \<noteq> []"
  shows "\<exists>e. get_timeseries read_var file_list no_min_max = Inl e"
proof (cases "ts_loop read_var no_min_max
    \<lparr>dates = 0, var_means = 1, var_stds = 1, var_mins = 2, var_maxs = 2\<rparr> file_list [[], [], []]")
  case (Inl e)
  then show ?thesis by (simp add: get_timeseries_def ts_setup_value)
next
  case (Inr h)
  from ts_loop_lengths [OF Inr] assms
  have "length (h ! 1) \<noteq> length (h ! 0)"
    by (cases file_list) auto
  then show ?thesis
    using Inr by (simp add: get_timeseries_def ts_setup_value data_frame_def)
qed

text \<open>
  Claim C1. For one readable file with a well-formed name, the loop leaves one date in
  \<open>dates\<close> and two numbers (the mean, then the deviation) in the one list that
  \<open>var_means\<close> and \<open>var_stds\<close> both name, so \<open>pd.DataFrame\<close> raises ValueError: no table
  is returned. The same happens with the minimum and maximum requested.
\<close>

theorem get_timeseries_one_file:
  "get_timeseries example_field [''ANHA4-EPM111_y1998m04d05_gridT.nc''] True = Inl ValueError
   \<and> get_timeseries example_field [''ANHA4-EPM111_y1998m04d05_gridT.nc''] False = Inl ValueError"
proof -
  have d: "get_date ''ANHA4-EPM111_y1998m04d05_gridT.nc'' ''ymd'' = Inr (YMD 1998 4 5)"
    by code_simp
  have p: "py_date 1998 4 5 = Inr (1998, 4, 5)"
    by code_simp
  have n: "nanmin [[Val 1, Val 2], [Val 3, NaN]] = Inr (Val 1)"
    "nanmax [[Val 1, Val 2], [Val 3, NaN]] = Inr (Val 3)"
    by (simp_all add: nanmin_def nanmax_def)
  show ?thesis
    by (simp add: get_timeseries_def ts_setup_value d p n calc_stats_var_data_def
          example_field_def list_append_def data_frame_def Let_def)
qed

text \<open>An empty file list gives the empty table.\<close>

lemma get_timeseries_no_files:
  "get_timeseries read_var [] True =
     Inr \<lparr>index_length = 0,
          columns = [(''date'', FloatCol []), (''var_mean'', FloatCol []), (''var_std'', FloatCol [])]\<rparr>"
  by (simp add: get_timeseries_def ts_setup_value data_frame_def column_of_list_def)

section \<open>Properties of calc\_timeseries and anhalize\_timeseries\<close>

lemma then_do_Inr: "then_do m f = Inr y \<longleftrightarrow> (\<exists>x. m = Inr x \<and> f x = Inr y)"
  by (cases m) (auto simp: then_do_def)

lemma map_of_put_column:
  "map_of (put_column name c cs) n = (if n = name then Some c else map_of cs n)"
  by (induction cs) auto

lemma get_column_put:
  "get_column (f\<lparr>columns := put_column name c (columns f)\<rparr>) n =
     (if n = name then Inr c else get_column f n)"
  by (simp add: get_column_def map_of_put_column)

lemma float_column_get: "get_column f name = Inr (FloatCol xs) \<Longrightarrow> float_column f name = xs"
  by (auto simp: get_column_def float_column_def split: option.splits)

lemma align_same: "length xs = n \<Longrightarrow> align n xs = xs"
  by (simp add: align_def)

lemma length_add_level: "length (add_level k ms qs) = min (length ms) (length qs)"
  by (simp add: add_level_def)

lemma length_remove_level: "length (remove_level k ms qs) = min (length ms) (length qs)"
  by (simp add: remove_level_def)

lemma nth_add_level:
  "i < length ms \<Longrightarrow> i < length qs \<Longrightarrow>
     add_level k ms qs ! i = fl_add (ms ! i) (fl_mul (Val k) (fl_sub (qs ! i) (ms ! i)))"
  by (simp add: add_level_def)

lemma nth_remove_level:
  "i < length ms \<Longrightarrow> i < length qs \<Longrightarrow>
     remove_level k ms qs ! i = fl_sub (ms ! i) (fl_mul (Val k) (fl_sub (ms ! i) (qs ! i)))"
  by (simp add: remove_level_def)

text \<open>The order of the thresholds of one row, in the two modes.\<close>

lemma add_levels_ordered:
  assumes "fl_le m q"
  shows "fl_le m (fl_add m (fl_mul (Val 2) (fl_sub q m)))
       \<and> fl_le (fl_add m (fl_mul (Val 2) (fl_sub q m))) (fl_add m (fl_mul (Val 3) (fl_sub q m)))
       \<and> fl_le (fl_add m (fl_mul (Val 3) (fl_sub q m))) (fl_add m (fl_mul (Val 4) (fl_sub q m)))"
  using assms by (cases m; cases q) simp_all

lemma remove_levels_ordered:
  assumes "fl_le q m"
  shows "fl_le (fl_sub m (fl_mul (Val 2) (fl_sub m q))) m
       \<and> fl_le (fl_sub m (fl_mul (Val 3) (fl_sub m q))) (fl_sub m (fl_mul (Val 2) (fl_sub m q)))
       \<and> fl_le (fl_sub m (fl_mul (Val 4) (fl_sub m q))) (fl_sub m (fl_mul (Val 3) (fl_sub m q)))"
  using assms by (cases m; cases q) simp_all

text \<open>What \<open>calc_timeseries\<close> does for the actions \<open>anhalize_timeseries\<close> passes.\<close>

lemma calc_timeseries_add:
  "calc_timeseries t ''add_2T'' n =
     then_do (mean_and_quantile t) (\<lambda>(ms, qs). Inr (ResSeries (add_level 2 ms qs)))"
  "calc_timeseries t ''add_3T'' n =
     then_do (mean_and_quantile t) (\<lambda>(ms, qs). Inr (ResSeries (add_level 3 ms qs)))"
  "calc_timeseries t ''add_4T'' n =
     then_do (mean_and_quantile t) (\<lambda>(ms, qs). Inr (ResSeries (add_level 4 ms qs)))"
  by (simp_all add: calc_timeseries_def)

lemma calc_timeseries_remove:
  "calc_timeseries t ''remove_2T'' n =
     then_do (mean_and_quantile t) (\<lambda>(ms, qs). Inr (ResSeries (remove_level 2 ms qs)))"
  "calc_timeseries t ''remove_3T'' n =
     then_do (mean_and_quantile t) (\<lambda>(ms, qs). Inr (ResSeries (remove_level 3 ms qs)))"
  "calc_timeseries t ''remove_4T'' n =
     then_do (mean_and_quantile t) (\<lambda>(ms, qs). Inr (ResSeries (remove_level 4 ms qs)))"
  by (simp_all add: calc_timeseries_def)

lemma calc_timeseries_group:
  "calc_timeseries t ''g_mean'' n =
     then_do (grouped t) (\<lambda>g. then_do (aggregate agg_mean g) (\<lambda>f. Inr (ResFrame f)))"
  "calc_timeseries t ''g_quantile90'' n =
     then_do (grouped t) (\<lambda>g. then_do (aggregate (agg_quantile 9 10) g) (\<lambda>f. Inr (ResFrame f)))"
  "calc_timeseries t ''g_quantile10'' n =
     then_do (grouped t) (\<lambda>g. then_do (aggregate (agg_quantile 1 10) g) (\<lambda>f. Inr (ResFrame f)))"
  by (simp_all add: calc_timeseries_def)

lemma calc_timeseries_long:
  "calc_timeseries t ''add_long'' (Some n) =
     then_do (get_column t ''var_mean'') (\<lambda>c. Inr (ResArray (repeat_column (nat n) c)))"
  by (simp add: calc_timeseries_def)

lemma aggregate_by_var_mean:
  "\<exists>xs. get_column (aggregate_by agg ks key_column ms ss) ''var_mean'' = Inr (FloatCol xs)"
  by (simp add: aggregate_by_def group_frame_def get_column_def)

lemma aggregate_var_mean:
  assumes "aggregate agg g = Inr f"
  shows "\<exists>xs. get_column f ''var_mean'' = Inr (FloatCol xs)"
proof -
  obtain wc mc sc where g: "g = (wc, mc, sc)"
    by (cases g)
  show ?thesis
  proof (cases wc)
    case (FloatCol ks)
    with assms g show ?thesis
      by (auto simp: aggregate_def then_do_Inr aggregate_by_var_mean)
  next
    case (IntCol ks)
    with assms g show ?thesis
      by (auto simp: aggregate_def then_do_Inr aggregate_by_var_mean)
  next
    case (ObjectCol ks)
    with assms g show ?thesis
      by (auto simp: aggregate_def then_do_Inr aggregate_by_var_mean split: if_splits)
  qed
qed

lemma mean_and_quantile_floats:
  assumes "get_column t ''var_mean_mean'' = Inr (FloatCol ms)"
      and "get_column t ''var_mean_quantile'' = Inr (FloatCol qs)"
  shows "mean_and_quantile t = Inr (ms, qs)"
  using assms by (simp add: mean_and_quantile_def then_do_def)

lemma calc_timeseries_group_frame:
  assumes "calc_timeseries t a n = Inr r"
      and "a \<in> {''g_mean'', ''g_quantile90'', ''g_quantile10''}"
      and "frame_of r = Inr f"
  shows "\<exists>xs. get_column f ''var_mean'' = Inr (FloatCol xs)"
proof -
  from assms(1,2) obtain agg g f' where "aggregate agg g = Inr f'" "r = ResFrame f'"
    by (auto simp: calc_timeseries_group then_do_Inr)
  with assms(3) show ?thesis
    by (auto dest: aggregate_var_mean)
qed

lemma actions_group: "actions mhw ! 0 \<in> {''g_mean'', ''g_quantile90'', ''g_quantile10''}"
  by (simp add: actions_def)

lemma assign_array:
  assumes "assign_result t name (ResArray c) = Inr t'"
  shows "t' = t\<lparr>columns := put_column name c (columns t)\<rparr> \<and> column_length c = index_length t"
  using assms by (auto split: if_splits)

text \<open>
  After lines 599 to 610 the table has a column of floats \<open>var_mean_mean\<close> and a column of
  floats \<open>var_mean_quantile\<close>, each as long as the index.
\<close>

lemma with_climatology_columns:
  assumes "with_climatology mhw t = Inr t'"
  shows "\<exists>ms qs. get_column t' ''var_mean_mean'' = Inr (FloatCol ms)
           \<and> get_column t' ''var_mean_quantile'' = Inr (FloatCol qs)
           \<and> length ms = index_length t' \<and> length qs = index_length t'"
proof -
  from assms obtain r1 f1 r2 f2 a1 t1 a2 where
    c1: "calc_timeseries t ''g_mean'' None = Inr r1" and fr1: "frame_of r1 = Inr f1" and
    c2: "calc_timeseries t (actions mhw ! 0) None = Inr r2" and fr2: "frame_of r2 = Inr f2" and
    l1: "calc_timeseries f1 ''add_long'' (Some n_year_const) = Inr a1" and
    s1: "assign_result t ''var_mean_mean'' a1 = Inr t1" and
    l2: "calc_timeseries f2 ''add_long'' (Some n_year_const) = Inr a2" and
    s2: "assign_result t1 ''var_mean_quantile'' a2 = Inr t'"
    unfolding with_climatology_def then_do_Inr by blast
  from calc_timeseries_group_frame [OF c1 _ fr1]
  obtain xs1 where x1: "get_column f1 ''var_mean'' = Inr (FloatCol xs1)" by auto
  from calc_timeseries_group_frame [OF c2 actions_group fr2]
  obtain xs2 where x2: "get_column f2 ''var_mean'' = Inr (FloatCol xs2)" by auto
  define ms where "ms = concat (replicate (nat n_year_const) xs1)"
  define qs where "qs = concat (replicate (nat n_year_const) xs2)"
  from l1 x1 have a1: "a1 = ResArray (FloatCol ms)"
    by (simp add: calc_timeseries_long then_do_def ms_def)
  from l2 x2 have a2: "a2 = ResArray (FloatCol qs)"
    by (simp add: calc_timeseries_long then_do_def qs_def)
  from assign_array [OF s1 [unfolded a1]]
  have t1: "t1 = t\<lparr>columns := put_column ''var_mean_mean'' (FloatCol ms) (columns t)\<rparr>"
    and lm: "length ms = index_length t" by simp_all
  from assign_array [OF s2 [unfolded a2]]
  have t': "t' = t1\<lparr>columns := put_column ''var_mean_quantile'' (FloatCol qs) (columns t1)\<rparr>"
    and lq: "length qs = index_length t1" by simp_all
  have "get_column t' ''var_mean_mean'' = Inr (FloatCol ms)"
    unfolding t' get_column_put unfolding t1 get_column_put by simp
  moreover have "get_column t' ''var_mean_quantile'' = Inr (FloatCol qs)"
    unfolding t' get_column_put by simp
  moreover have "index_length t' = index_length t"
    by (simp add: t' t1)
  ultimately show ?thesis
    using lm lq by (auto simp: t1)
qed

text \<open>
  Lines 613 to 615 on such a table: the three new columns are the thresholds computed row
  by row from the two columns, which stay as they were.
\<close>

lemma with_thresholds_columns:
  assumes run: "with_thresholds mhw t = Inr out"
      and m: "get_column t ''var_mean_mean'' = Inr (FloatCol ms)"
      and q: "get_column t ''var_mean_quantile'' = Inr (FloatCol qs)"
      and lm: "length ms = index_length t"
      and lq: "length qs = index_length t"
  shows "index_length out = index_length t
       \<and> float_column out ''var_mean_mean'' = ms
       \<and> float_column out ''var_mean_quantile'' = qs
       \<and> float_column out ''var_mean_2T'' =
           (if mhw then add_level 2 ms qs else remove_level 2 ms qs)
       \<and> float_column out ''var_mean_3T'' =
           (if mhw then add_level 3 ms qs else remove_level 3 ms qs)
       \<and> float_column out ''var_mean_4T'' =
           (if mhw then add_level 4 ms qs else remove_level 4 ms qs)"
proof -
  define level where "level k = (if mhw then add_level k ms qs else remove_level k ms qs)" for k
  have len: "length (level k) = index_length t" for k
    by (simp add: level_def length_add_level length_remove_level lm lq)
  have calc: "calc_timeseries t' (actions mhw ! Suc 0) None = Inr (ResSeries (level 2))"
    "calc_timeseries t' (actions mhw ! 2) None = Inr (ResSeries (level 3))"
    "calc_timeseries t' (actions mhw ! 3) None = Inr (ResSeries (level 4))"
    if "get_column t' ''var_mean_mean'' = Inr (FloatCol ms)"
      and "get_column t' ''var_mean_quantile'' = Inr (FloatCol qs)" for t'
    using mean_and_quantile_floats [OF that]
    by (simp_all add: actions_def calc_timeseries_add calc_timeseries_remove then_do_def level_def)
  define t2 where "t2 = t\<lparr>columns := put_column ''var_mean_2T'' (FloatCol (level 2)) (columns t)\<rparr>"
  define t3 where "t3 = t2\<lparr>columns := put_column ''var_mean_3T'' (FloatCol (level 3)) (columns t2)\<rparr>"
  define t4 where "t4 = t3\<lparr>columns := put_column ''var_mean_4T'' (FloatCol (level 4)) (columns t3)\<rparr>"
  have i2: "index_length t2 = index_length t" by (simp add: t2_def)
  have i3: "index_length t3 = index_length t" by (simp add: t3_def i2)
  have m2: "get_column t2 ''var_mean_mean'' = Inr (FloatCol ms)"
    and q2: "get_column t2 ''var_mean_quantile'' = Inr (FloatCol qs)"
    unfolding t2_def get_column_put using m q by simp_all
  have m3: "get_column t3 ''var_mean_mean'' = Inr (FloatCol ms)"
    and q3: "get_column t3 ''var_mean_quantile'' = Inr (FloatCol qs)"
    unfolding t3_def get_column_put using m2 q2 by simp_all
  have "with_thresholds mhw t = Inr t4"
    unfolding with_thresholds_def
    by (simp add: calc [OF m q] calc [OF m2 q2] calc [OF m3 q3] then_do_def align_same len
          i2 i3 flip: t2_def t3_def t4_def)
  with run have out: "out = t4" by simp
  have g: "get_column t4 ''var_mean_mean'' = Inr (FloatCol ms)"
    "get_column t4 ''var_mean_quantile'' = Inr (FloatCol qs)"
    "get_column t4 ''var_mean_4T'' = Inr (FloatCol (level 4))"
    "get_column t4 ''var_mean_3T'' = Inr (FloatCol (level 3))"
    "get_column t4 ''var_mean_2T'' = Inr (FloatCol (level 2))"
    unfolding t4_def get_column_put t3_def t2_def using m q by simp_all
  show ?thesis
    unfolding out using g [THEN float_column_get]
    by (simp add: level_def t4_def i3)
qed

text \<open>
  Claim C2. In the table \<open>anhalize_timeseries\<close> returns, the columns \<open>var_mean_mean\<close>,
  \<open>var_mean_quantile\<close>, \<open>var_mean_2T\<close>, \<open>var_mean_3T\<close> and \<open>var_mean_4T\<close> have one float per
  row, and in every row, with \<open>m\<close> the climatological mean and \<open>q\<close> the quantile of that
  row, the threshold of level \<open>k\<close> is \<open>m + k * (q - m)\<close> in heatwave mode and
  \<open>m - k * (m - q)\<close> in cold-spell mode. Hence \<open>m \<le> q\<close> gives
  \<open>m \<le> t2 \<le> t3 \<le> t4\<close> in heatwave mode, and \<open>q \<le> m\<close> gives \<open>t4 \<le> t3 \<le> t2 \<le> m\<close> in
  cold-spell mode.
\<close>

theorem anhalize_timeseries_thresholds:
  assumes "anhalize_timeseries raw mhw = Inr out"
  shows "length (float_column out ''var_mean_mean'') = index_length out
       \<and> length (float_column out ''var_mean_quantile'') = index_length out
       \<and> length (float_column out ''var_mean_2T'') = index_length out
       \<and> length (float_column out ''var_mean_3T'') = index_length out
       \<and> length (float_column out ''var_mean_4T'') = index_length out
       \<and> (\<forall>i < index_length out.
            let m = float_column out ''var_mean_mean'' ! i;
                q = float_column out ''var_mean_quantile'' ! i;
                t2 = float_column out ''var_mean_2T'' ! i;
                t3 = float_column out ''var_mean_3T'' ! i;
                t4 = float_column out ''var_mean_4T'' ! i
            in (if mhw
                then t2 = fl_add m (fl_mul (Val 2) (fl_sub q m))
                   \<and> t3 = fl_add m (fl_mul (Val 3) (fl_sub q m))
                   \<and> t4 = fl_add m (fl_mul (Val 4) (fl_sub q m))
                else t2 = fl_sub m (fl_mul (Val 2) (fl_sub m q))
                   \<and> t3 = fl_sub m (fl_mul (Val 3) (fl_sub m q))
                   \<and> t4 = fl_sub m (fl_mul (Val 4) (fl_sub m q)))
             \<and> (mhw \<and> fl_le m q \<longrightarrow> fl_le m t2 \<and> fl_le t2 t3 \<and> fl_le t3 t4)
             \<and> (\<not> mhw \<and> fl_le q m \<longrightarrow> fl_le t4 t3 \<and> fl_le t3 t2 \<and> fl_le t2 m))"
proof -
  from assms obtain t t' where
    "with_calendar raw = Inr t" and clim: "with_climatology mhw t = Inr t'"
    and thr: "with_thresholds mhw t' = Inr out"
    unfolding anhalize_timeseries_def then_do_Inr by blast
  from with_climatology_columns [OF clim] obtain ms qs where
    m: "get_column t' ''var_mean_mean'' = Inr (FloatCol ms)" and
    q: "get_column t' ''var_mean_quantile'' = Inr (FloatCol qs)" and
    lm: "length ms = index_length t'" and lq: "length qs = index_length t'"
    by blast
  note c = with_thresholds_columns [OF thr m q lm lq]
  have lens: "length ms = index_length out" "length qs = index_length out"
    using c lm lq by simp_all
  show ?thesis
  proof (cases mhw)
    case True
    then show ?thesis
      using c lens
      by (auto simp: Let_def length_add_level nth_add_level add_levels_ordered)
  next
    case False
    then show ?thesis
      using c lens
      by (auto simp: Let_def length_remove_level nth_remove_level remove_levels_ordered)
  qed
qed

theorem anhalize_timeseries_thresholds_witness:
  "(\<exists>out. anhalize_timeseries july_series True = Inr out
      \<and> index_length out = 52
      \<and> float_column out ''var_mean_mean'' ! 0 = Val 5
      \<and> float_column out ''var_mean_quantile'' ! 0 = Val 10
      \<and> float_column out ''var_mean_2T'' ! 0 = Val 15
      \<and> float_column out ''var_mean_3T'' ! 0 = Val 20
      \<and> float_column out ''var_mean_4T'' ! 0 = Val 25)
   \<and> (\<exists>out. anhalize_timeseries july_series False = Inr out
      \<and> index_length out = 52
      \<and> float_column out ''var_mean_mean'' ! 0 = Val 5
      \<and> float_column out ''var_mean_quantile'' ! 0 = Val 0
      \<and> float_column out ''var_mean_2T'' ! 0 = Val (- 5)
      \<and> float_column out ''var_mean_3T'' ! 0 = Val (- 10)
      \<and> float_column out ''var_mean_4T'' ! 0 = Val (- 15))"
proof -
  have "then_do (anhalize_timeseries july_series True)
      (\<lambda>out. Inr (index_length out, float_column out ''var_mean_mean'' ! 0,
                   float_column out ''var_mean_quantile'' ! 0)) = Inr (52, Val 5, Val 10)"
    unfolding july_series_def by code_simp
  then obtain hot where hot: "anhalize_timeseries july_series True = Inr hot"
    "index_length hot = 52" "float_column hot ''var_mean_mean'' ! 0 = Val 5"
    "float_column hot ''var_mean_quantile'' ! 0 = Val 10"
    by (auto simp: then_do_Inr)
  have "then_do (anhalize_timeseries july_series False)
      (\<lambda>out. Inr (index_length out, float_column out ''var_mean_mean'' ! 0,
                   float_column out ''var_mean_quantile'' ! 0)) = Inr (52, Val 5, Val 0)"
    unfolding july_series_def by code_simp
  then obtain cold where cold: "anhalize_timeseries july_series False = Inr cold"
    "index_length cold = 52" "float_column cold ''var_mean_mean'' ! 0 = Val 5"
    "float_column cold ''var_mean_quantile'' ! 0 = Val 0"
    by (auto simp: then_do_Inr)
  have "float_column hot ''var_mean_2T'' ! 0 = Val 15
      \<and> float_column hot ''var_mean_3T'' ! 0 = Val 20
      \<and> float_column hot ''var_mean_4T'' ! 0 = Val 25"
    using anhalize_timeseries_thresholds [OF hot(1)] hot(2-)
    by (auto simp: Let_def)
  moreover have "float_column cold ''var_mean_2T'' ! 0 = Val (- 5)
      \<and> float_column cold ''var_mean_3T'' ! 0 = Val (- 10)
      \<and> float_column cold ''var_mean_4T'' ! 0 = Val (- 15)"
    using anhalize_timeseries_thresholds [OF cold(1)] cold(2-)
    by (auto simp: Let_def)
  ultimately show ?thesis
    using hot cold by blast
qed

section \<open>Further properties\<close>

text \<open>
  The separable example as an instance of \<open>get_row_col_range_northern\<close>: the rows 2 to 4
  and the columns 1 to 3 are the ones with a selected cell, and they are the ranges
  returned.
\<close>

theorem get_row_col_range_northern_example:
  "get_row_col_range separable_grid (51.5, 54.5) (- 89.5, - 86.5) ''gridT'' = Inr ((2, 4), (1, 3))
   \<and> Min (selected_rows separable_grid ''gridT'' (51.5, 54.5) (- 89.5, - 86.5)) = 2
   \<and> Max (selected_rows separable_grid ''gridT'' (51.5, 54.5) (- 89.5, - 86.5)) = 4
   \<and> Min (selected_cols separable_grid ''gridT'' (51.5, 54.5) (- 89.5, - 86.5)) = 1
   \<and> Max (selected_cols separable_grid ''gridT'' (51.5, 54.5) (- 89.5, - 86.5)) = 3"
proof -
  define R where "R = selected_rows separable_grid ''gridT'' (51.5, 54.5) (- 89.5, - 86.5)"
  define C where "C = selected_cols separable_grid ''gridT'' (51.5, 54.5) (- 89.5, - 86.5)"
  have pos: "0 < grid_lat separable_grid ''gridT'' i j" for i j
    by (simp add: separable_grid_def grid_lat_def)
  have some: "2 < n_rows separable_grid" "1 < n_cols separable_grid"
    "cell_selected separable_grid ''gridT'' (51.5, 54.5) (- 89.5, - 86.5) 2 1"
    by (simp_all add: separable_grid_def cell_selected_def in_range_def grid_lat_def grid_lon_def)
  note a = get_row_col_range_northern [OF pos some, folded R_def C_def]
  note b = get_row_col_range_separable
  have "Inr ((Min R, Max R), (Min C, Max C)) = (Inr ((2, 4), (1, 3)) :: error + (nat \<times> nat) \<times> nat \<times> nat)"
    unfolding a [symmetric] by (rule b)
  then have "Min R = 2 \<and> Max R = 4 \<and> Min C = 1 \<and> Max C = 3"
    by simp
  then show ?thesis
    unfolding R_def C_def using b by simp
qed

text \<open>Two files: \<open>get_timeseries\<close> raises, as it does for every file list that is not empty.\<close>

theorem get_timeseries_raises_example:
  "\<exists>e. get_timeseries example_field
          [''ANHA4-EPM111_y1998m04d05_gridT.nc'', ''ANHA4-EPM111_y1998m04d10_gridT.nc''] True = Inl e"
  using get_timeseries_raises
    [of "[''ANHA4-EPM111_y1998m04d05_gridT.nc'', ''ANHA4-EPM111_y1998m04d10_gridT.nc'']"
      example_field True]
  by simp

text \<open>
  With \<open>one_per_month\<close> on and an explicit month list, the first selected file whose name
  contains the stump of a year and month is taken, for the years in the order given and
  the months in the order given within a year; the call raises IndexError exactly when
  some pair has no such file.
\<close>

lemma first_of_months_result:
  "first_of_months sel year ms acc =
     (if list_all (\<lambda>m. filter (str_in (file_name_stump year m)) sel \<noteq> []) ms
      then Inr (acc @ map (\<lambda>m. hd (filter (str_in (file_name_stump year m)) sel)) ms)
      else Inl IndexError)"
  by (induction ms arbitrary: acc) (auto split: list.splits)

lemma first_of_years_result:
  "first_of_years sel ys ms acc =
     (if list_all (\<lambda>year. list_all (\<lambda>m. filter (str_in (file_name_stump year m)) sel \<noteq> []) ms) ys
      then Inr (acc @ concat (map (\<lambda>year.
                  map (\<lambda>m. hd (filter (str_in (file_name_stump year m)) sel)) ms) ys))
      else Inl IndexError)"
  by (induction ys arbitrary: acc) (auto simp: first_of_months_result)

theorem get_file_list_first_per_month:
  assumes "snd (get_paths w (run_name self) False) = Inr (data_path, mask_path)"
      and "listdir w data_path = Inr file_list"
      and "month_list \<noteq> []"
      and "sel = select_years file_list (grid self) (years self)"
  shows "get_file_list w self (Some month_list) True False =
     (if list_all (\<lambda>year. list_all (\<lambda>m. filter (str_in (file_name_stump year m)) sel \<noteq> [])
                      month_list) (years self)
      then Inr (map (\<lambda>f. data_path @ f)
             (concat (map (\<lambda>year.
                map (\<lambda>m. hd (filter (str_in (file_name_stump year m)) sel)) month_list)
                (years self))))
      else Inl IndexError)"
proof (cases "years self = []")
  case True
  then show ?thesis
    using assms(3,4)
    by (simp add: get_file_list_unfold [OF assms(1,2)] monthly_selection_def select_years_def)
next
  case False
  then have "concat (map (\<lambda>year.
      map (\<lambda>m. hd (filter (str_in (file_name_stump year m)) sel)) month_list) (years self)) \<noteq> []"
    using assms(3) by (cases "years self") auto
  then show ?thesis
    using assms(3,4)
    by (simp add: get_file_list_unfold [OF assms(1,2)] monthly_selection_def
          first_of_years_result)
qed

theorem get_file_list_first_per_month_example:
  "get_file_list laptop_world run_1998 (Some [MonthStr ''02'', MonthStr ''01'']) True False =
     Inr [''/data/R_y1998m02d01_gridT.nc'', ''/data/R_y1998m01d01_gridT.nc'']
   \<and> get_file_list laptop_world run_1998 (Some [MonthStr ''07'']) True False = Inl IndexError"
proof -
  let ?l = "[''R_y1998m02d01_gridT.nc'', ''R_y1999m01d01_gridT.nc'', ''R_y1998m01d01_gridT.nc'']"
  let ?sel = "[''R_y1998m01d01_gridT.nc'', ''R_y1998m02d01_gridT.nc'']"
  have p: "snd (get_paths laptop_world (run_name run_1998) False) = Inr (''/data/'', ''/masks/'')"
    unfolding laptop_world_def run_1998_def by code_simp
  have d: "listdir laptop_world ''/data/'' = Inr ?l"
    unfolding laptop_world_def example_listing_def by simp
  have g: "grid run_1998 = ''T''" "years run_1998 = [''1998'']"
    by (simp_all add: run_1998_def)
  have s: "?sel = select_years ?l (grid run_1998) (years run_1998)"
    unfolding g by code_simp
  have f: "filter (str_in (file_name_stump ''1998'' (MonthStr ''02''))) ?sel =
      [''R_y1998m02d01_gridT.nc'']"
    "filter (str_in (file_name_stump ''1998'' (MonthStr ''01''))) ?sel =
      [''R_y1998m01d01_gridT.nc'']"
    "filter (str_in (file_name_stump ''1998'' (MonthStr ''07''))) ?sel = []"
    by code_simp+
  have n2: "[MonthStr ''02'', MonthStr ''01''] \<noteq> []" and n7: "[MonthStr ''07''] \<noteq> []"
    by simp_all
  show ?thesis
    using get_file_list_first_per_month [OF p d n2 s] get_file_list_first_per_month [OF p d n7 s]
    by (simp add: g f del: filter.simps)
qed

end
